theory Spec2Isabelle
  imports Main "HOL-Library.Word"
begin

unbundle bit_operations_syntax

section \<open>Channel serialization (aslam/common/channel-serialization.h)\<close>

text \<open>
  A shallow embedding of the templates of \<^verbatim>\<open>channel-serialization.h\<close>. The platform is
  the one the code is built for: \<^verbatim>\<open>size_t\<close> and \<^verbatim>\<open>Eigen::Index\<close> have 64 bits, \<^verbatim>\<open>int\<close>
  has 32 bits, a pointer has 8 bytes. Memory is modelled by value: a pointer to bytes is
  the byte sequence readable through it (\<open>None\<close> is the null pointer), an output parameter
  is the value it points to (\<open>None\<close> is a null output pointer), and the arrays made by
  \<^verbatim>\<open>new char[n]\<close> live in an explicit heap.
\<close>

subsection \<open>Outcomes\<close>

text \<open>
  A call either returns (\<open>Inr\<close>) or does not (\<open>Inl\<close>): a failed glog \<^verbatim>\<open>CHECK\<close> aborts
  the process (\<open>CheckFailed\<close>), a copy outside an object is undefined behaviour
  (\<open>UndefinedBehaviour\<close>), and the external libraries throw \<^verbatim>\<open>std::bad_alloc\<close>,
  \<^verbatim>\<open>std::logic_error\<close>, \<^verbatim>\<open>std::invalid_argument\<close> and \<^verbatim>\<open>std::out_of_range\<close>.
\<close>

datatype failure =
  CheckFailed | UndefinedBehaviour | BadAlloc | LogicError | InvalidArgument | OutOfRange

type_synonym byte = "8 word"

definition size_t_of_int :: "int \<Rightarrow> nat" where
  \<comment> \<open>conversion of an integer value to the 64-bit \<^verbatim>\<open>size_t\<close>\<close>
  "size_t_of_int i = nat (i mod 2 ^ 64)"

definition size_t_of_nat :: "nat \<Rightarrow> nat" where
  "size_t_of_nat n = n mod 2 ^ 64"

definition int_of_Index :: "nat \<Rightarrow> int" where
  \<comment> \<open>an \<^verbatim>\<open>Eigen::Index\<close> (64 bits, here non-negative) passed for an \<^verbatim>\<open>int\<close> parameter\<close>
  "int_of_Index n = sint (word_of_nat n :: 32 word)"

definition memcpy :: "byte list \<Rightarrow> nat \<Rightarrow> byte list \<Rightarrow> nat \<Rightarrow> nat \<Rightarrow> byte list option" where
  \<comment> \<open>\<^verbatim>\<open>memcpy(dst + doff, src + soff, n)\<close>: the new contents of the destination object,
      \<open>None\<close> when the copy leaves the source or the destination object\<close>
  "memcpy dst doff src soff n =
     (if doff + n \<le> length dst \<and> soff + n \<le> length src
      then Some (take doff dst @ take n (drop soff src) @ drop (doff + n) dst)
      else None)"

definition string_resize :: "byte list \<Rightarrow> nat \<Rightarrow> byte list" where
  \<comment> \<open>\<^verbatim>\<open>std::string::resize(n)\<close>: the old characters are kept, new ones are zero\<close>
  "string_resize s n = take n s @ replicate (n - length s) 0"

record heap =
  cells :: "nat \<Rightarrow> byte list option"
  next_addr :: nat

definition fresh_chars :: "nat \<Rightarrow> byte list" where
  \<comment> \<open>the contents of an array just made by \<^verbatim>\<open>new char[n]\<close>: indeterminate in C++, taken
      as zero bytes\<close>
  "fresh_chars n = replicate n 0"

definition new_chars :: "heap \<Rightarrow> nat \<Rightarrow> nat \<times> heap" where
  \<comment> \<open>\<^verbatim>\<open>new char[n]\<close>: the address of the new array and the heap holding it\<close>
  "new_chars hp n =
     (next_addr hp,
      \<lparr>cells = (cells hp)(next_addr hp \<mapsto> fresh_chars n), next_addr = Suc (next_addr hp)\<rparr>)"

definition delete_chars :: "heap \<Rightarrow> nat \<Rightarrow> heap" where
  \<comment> \<open>\<^verbatim>\<open>delete[] p\<close>\<close>
  "delete_chars hp a = hp\<lparr>cells := (cells hp)(a := None)\<rparr>"

definition store_chars :: "heap \<Rightarrow> nat \<Rightarrow> byte list \<Rightarrow> heap" where
  \<comment> \<open>the heap after writes through a pointer to the array at \<open>a\<close>\<close>
  "store_chars hp a bs = hp\<lparr>cells := (cells hp)(a \<mapsto> bs)\<rparr>"

subsection \<open>The header\<close>

record HeaderInformation =
  rows :: "32 word"
  cols :: "32 word"
  depth :: "32 word"
  channels :: "32 word"

text \<open>
  \<^verbatim>\<open>SCALAR\<close>, as far as the templates use it: \<^verbatim>\<open>sizeof(SCALAR)\<close> and the OpenCV constant
  \<^verbatim>\<open>cv::DataType<SCALAR>::depth\<close>, which is not part of this repository.
\<close>

record scalar_traits =
  sizeof :: nat
  cv_depth :: int

definition HeaderInformation_size :: nat where
  \<comment> \<open>Modelled from the spec: \<^verbatim>\<open>HeaderInformation::size()\<close> is only declared in the header;
      the spec gives the constant sum of the four 4-byte field widths.\<close>
  "HeaderInformation_size = 16"

text \<open>
  The bodies of \<^verbatim>\<open>HeaderInformation::serializeToBuffer\<close> and
  \<^verbatim>\<open>HeaderInformation::deSerializeFromBuffer\<close> are not in the header either. The templates
  take them as parameters: a writer gets the header, the pointee of a non-null buffer and
  the offset, and returns its \<^verbatim>\<open>bool\<close> with the buffer's new contents; a reader gets the
  buffer pointer and the offset and returns the header it read, \<open>None\<close> for \<^verbatim>\<open>false\<close>.
\<close>

type_synonym header_writer =
  "HeaderInformation \<Rightarrow> byte list \<Rightarrow> nat \<Rightarrow> failure + (bool \<times> byte list)"

type_synonym header_reader =
  "byte list option \<Rightarrow> nat \<Rightarrow> failure + HeaderInformation option"

definition le32 :: "32 word \<Rightarrow> byte list" where
  "le32 w = [ucast w, ucast (drop_bit 8 w), ucast (drop_bit 16 w), ucast (drop_bit 24 w)]"

definition of_le32 :: "byte list \<Rightarrow> 32 word" where
  "of_le32 bs =
     ucast (bs ! 0) OR push_bit 8 (ucast (bs ! 1)) OR push_bit 16 (ucast (bs ! 2))
       OR push_bit 24 (ucast (bs ! 3))"

definition header_bytes :: "HeaderInformation \<Rightarrow> byte list" where
  "header_bytes h = le32 (rows h) @ le32 (cols h) @ le32 (depth h) @ le32 (channels h)"

definition HeaderInformation_serializeToBuffer :: header_writer where
  \<comment> \<open>Modelled from the spec: the body is not in the header. The four fields are written
      in field order, 4 bytes each, from \<open>offset\<close> on, in the host's byte order (little-endian
      here); the destination is not bounds-checked. The failure on a null destination
      does not arise: the argument is the pointee of a non-null pointer.\<close>
  "HeaderInformation_serializeToBuffer h buffer offset =
     (case memcpy buffer offset (header_bytes h) 0 HeaderInformation_size of
        None \<Rightarrow> Inl UndefinedBehaviour
      | Some b \<Rightarrow> Inr (True, b))"

definition HeaderInformation_deSerializeFromBuffer :: header_reader where
  \<comment> \<open>Modelled from the spec: the body is not in the header. It fails on a null buffer and
      otherwise reads the four fields back from \<open>offset\<close> on, validating nothing.\<close>
  "HeaderInformation_deSerializeFromBuffer bufferIn offset =
     (case bufferIn of
        None \<Rightarrow> Inr None
      | Some b \<Rightarrow>
          if offset + HeaderInformation_size \<le> length b
          then Inr (Some \<lparr>rows = of_le32 (take 4 (drop offset b)),
                          cols = of_le32 (take 4 (drop (offset + 4) b)),
                          depth = of_le32 (take 4 (drop (offset + 8) b)),
                          channels = of_le32 (take 4 (drop (offset + 12) b))\<rparr>)
          else Inl UndefinedBehaviour)"

definition makeHeaderInformation :: "scalar_traits \<Rightarrow> int \<Rightarrow> int \<Rightarrow> int \<Rightarrow> HeaderInformation" where
  \<comment> \<open>the \<^verbatim>\<open>int\<close> arguments are converted to the \<^verbatim>\<open>uint32_t\<close> fields\<close>
  "makeHeaderInformation st rows_in cols_in channels_in =
     \<lparr>rows = word_of_int rows_in, cols = word_of_int cols_in,
      depth = word_of_int (cv_depth st), channels = word_of_int channels_in\<rparr>"

subsection \<open>Encoding from a raw pointer\<close>

definition serializeToString_raw ::
  "header_writer \<Rightarrow> scalar_traits \<Rightarrow> byte list option \<Rightarrow> int \<Rightarrow> int \<Rightarrow> int \<Rightarrow> byte list option
     \<Rightarrow> failure + (bool \<times> byte list)" where
  \<comment> \<open>returns the \<^verbatim>\<open>bool\<close> and the contents of \<^verbatim>\<open>*string\<close>\<close>
  "serializeToString_raw hw st matrixData rows_in cols_in channels_in string =
     (if rows_in < 0 then Inl CheckFailed
      else if cols_in < 0 then Inl CheckFailed
      else (case string of
        None \<Rightarrow> Inl CheckFailed
      | Some str \<Rightarrow>
          let header = makeHeaderInformation st rows_in cols_in channels_in;
              matrixSize = size_t_of_int (int (sizeof st) * rows_in * cols_in * channels_in);
              totalSize = size_t_of_nat (matrixSize + HeaderInformation_size)
          in if totalSize = 0 then Inl CheckFailed
             else (case hw header (string_resize str totalSize) 0 of
               Inl e \<Rightarrow> Inl e
             | Inr (success, buffer) \<Rightarrow>
                 if \<not> success then Inr (False, buffer)
                 else (case matrixData of
                   None \<Rightarrow> Inl UndefinedBehaviour
                 | Some md \<Rightarrow>
                     (case memcpy buffer HeaderInformation_size md 0 matrixSize of
                        None \<Rightarrow> Inl UndefinedBehaviour
                      | Some buffer' \<Rightarrow> Inr (True, buffer'))))))"

definition serializeToBuffer_raw ::
  "header_writer \<Rightarrow> scalar_traits \<Rightarrow> heap \<Rightarrow> byte list option \<Rightarrow> int \<Rightarrow> int \<Rightarrow> int
     \<Rightarrow> nat option option \<Rightarrow> nat option
     \<Rightarrow> failure + (bool \<times> heap \<times> nat option \<times> nat)" where
  \<comment> \<open>\<open>buffer\<close> and \<open>totalSize\<close> are the output pointers with the values they point to;
      returns the \<^verbatim>\<open>bool\<close>, the heap, \<^verbatim>\<open>*buffer\<close> and \<^verbatim>\<open>*totalSize\<close>. The header writer gets
      the contents of the new array at \<open>a\<close>, which are stored back after the copy.\<close>
  "serializeToBuffer_raw hw st hp matrixData rows_in cols_in channels_in buffer totalSize =
     (case totalSize of
        None \<Rightarrow> Inl CheckFailed
      | Some _ \<Rightarrow>
     (case buffer of
        None \<Rightarrow> Inl CheckFailed
      | Some _ \<Rightarrow>
          let header = makeHeaderInformation st rows_in cols_in channels_in;
              matrixSize = size_t_of_int (int (sizeof st) * rows_in * cols_in * channels_in);
              totalSize' = size_t_of_nat (matrixSize + HeaderInformation_size);
              (a, hp1) = new_chars hp totalSize'
          in (case hw header (fresh_chars totalSize') 0 of
               Inl e \<Rightarrow> Inl e
             | Inr (success, b) \<Rightarrow>
                 if \<not> success then Inr (False, delete_chars hp1 a, None, totalSize')
                 else (case matrixData of
                   None \<Rightarrow> Inl UndefinedBehaviour
                 | Some md \<Rightarrow>
                     (case memcpy b HeaderInformation_size md 0 matrixSize of
                        None \<Rightarrow> Inl UndefinedBehaviour
                      | Some b' \<Rightarrow> Inr (True, store_chars hp1 a b', Some a, totalSize'))))))"

subsection \<open>Matrices\<close>

text \<open>
  An \<^verbatim>\<open>Eigen::Matrix<SCALAR, ROWS, COLS>\<close> object: its \<^verbatim>\<open>rows()\<close>, its \<^verbatim>\<open>cols()\<close> and the
  bytes of the coefficient array behind \<^verbatim>\<open>data()\<close>. \<^verbatim>\<open>ROWS\<close> and \<^verbatim>\<open>COLS\<close> are the template
  arguments, \<^verbatim>\<open>Eigen::Dynamic\<close> being \<open>-1\<close>. Two matrices are equal when rows, columns and
  coefficient bytes are. The \<^verbatim>\<open>data()\<close> of a matrix without coefficients is passed on as a
  pointer to no bytes: the code copies nothing from or to it.
\<close>

record Matrix =
  mrows :: nat
  mcols :: nat
  mdata :: "byte list"

definition Dynamic :: int where
  "Dynamic = - 1"

definition Matrix_resize :: "scalar_traits \<Rightarrow> Matrix \<Rightarrow> nat \<Rightarrow> nat \<Rightarrow> failure + Matrix" where
  \<comment> \<open>Eigen's \<^verbatim>\<open>resize\<close> (external): \<^verbatim>\<open>std::bad_alloc\<close> when the coefficient count or the
      byte size overflows; the array is kept when the coefficient count stays the same
      and is a new one (taken as zero bytes) otherwise\<close>
  "Matrix_resize st m r c =
     (if r * c < 2 ^ 63 \<and> sizeof st * r * c < 2 ^ 64
      then Inr \<lparr>mrows = r, mcols = c,
                mdata = (if r * c = mrows m * mcols m then mdata m
                         else replicate (sizeof st * r * c) 0)\<rparr>
      else Inl BadAlloc)"

definition wf_Matrix :: "scalar_traits \<Rightarrow> int \<Rightarrow> int \<Rightarrow> Matrix \<Rightarrow> bool" where
  \<comment> \<open>the objects of type \<^verbatim>\<open>Eigen::Matrix<SCALAR, ROWS, COLS>\<close>\<close>
  "wf_Matrix st ROWS COLS m \<longleftrightarrow>
     (ROWS = Dynamic \<or> (0 \<le> ROWS \<and> ROWS < 2 ^ 31 \<and> mrows m = nat ROWS)) \<and>
     (COLS = Dynamic \<or> (0 \<le> COLS \<and> COLS < 2 ^ 31 \<and> mcols m = nat COLS)) \<and>
     length (mdata m) = sizeof st * mrows m * mcols m \<and>
     mrows m * mcols m < 2 ^ 63 \<and>
     sizeof st * mrows m * mcols m < 2 ^ 64"

definition serializeToBuffer_matrix ::
  "header_writer \<Rightarrow> scalar_traits \<Rightarrow> heap \<Rightarrow> Matrix \<Rightarrow> nat option option \<Rightarrow> nat option
     \<Rightarrow> failure + (bool \<times> heap \<times> nat option \<times> nat)" where
  "serializeToBuffer_matrix hw st hp matrix buffer size_out =
     serializeToBuffer_raw hw st hp (Some (mdata matrix))
       (int_of_Index (mrows matrix)) (int_of_Index (mcols matrix)) 1 buffer size_out"

definition serializeToString_matrix ::
  "header_writer \<Rightarrow> scalar_traits \<Rightarrow> Matrix \<Rightarrow> byte list option \<Rightarrow> failure + (bool \<times> byte list)" where
  "serializeToString_matrix hw st matrix string =
     serializeToString_raw hw st (Some (mdata matrix))
       (int_of_Index (mrows matrix)) (int_of_Index (mcols matrix)) 1 string"

definition resize_destination ::
  "scalar_traits \<Rightarrow> int \<Rightarrow> int \<Rightarrow> HeaderInformation \<Rightarrow> Matrix \<Rightarrow> failure + Matrix" where
  \<comment> \<open>lines 124 to 130 of \<^verbatim>\<open>deSerializeFromBuffer\<close>\<close>
  "resize_destination st ROWS COLS header m =
     (if ROWS = Dynamic \<and> COLS = Dynamic
      then Matrix_resize st m (unat (rows header)) (unat (cols header))
      else if ROWS = Dynamic \<and> COLS \<noteq> Dynamic
      then Matrix_resize st m (unat (rows header)) (mcols m)
      else if ROWS \<noteq> Dynamic \<and> COLS = Dynamic
      then Matrix_resize st m (mrows m) (unat (cols header))
      else Inr m)"

definition deSerializeFromBuffer ::
  "header_reader \<Rightarrow> scalar_traits \<Rightarrow> int \<Rightarrow> int \<Rightarrow> byte list option \<Rightarrow> nat \<Rightarrow> Matrix option
     \<Rightarrow> failure + (bool \<times> Matrix)" where
  \<comment> \<open>returns the \<^verbatim>\<open>bool\<close> and the contents of \<^verbatim>\<open>*matrix\<close>. When the header read fails,
      the message logged before \<^verbatim>\<open>return false\<close> holds \<^verbatim>\<open>std::string(buffer, size)\<close>: building
      it throws \<^verbatim>\<open>std::logic_error\<close> on a null buffer (\<open>size\<close> is at least 16 there) and reads
      outside the buffer when fewer than \<open>size\<close> bytes are readable.\<close>
  "deSerializeFromBuffer hr st ROWS COLS buffer size_in matrix =
     (case matrix of
        None \<Rightarrow> Inl CheckFailed
      | Some m \<Rightarrow>
          if size_in < HeaderInformation_size then Inl CheckFailed
          else (case hr buffer 0 of
            Inl e \<Rightarrow> Inl e
          | Inr None \<Rightarrow>
              (case buffer of
                 None \<Rightarrow> Inl LogicError
               | Some b \<Rightarrow>
                   if size_in \<le> length b then Inr (False, m) else Inl UndefinedBehaviour)
          | Inr (Some header) \<Rightarrow>
              if ROWS \<noteq> Dynamic \<and> rows header \<noteq> word_of_int ROWS then Inl CheckFailed
              else if COLS \<noteq> Dynamic \<and> cols header \<noteq> word_of_int COLS then Inl CheckFailed
              else if depth header \<noteq> word_of_int (cv_depth st) then Inl CheckFailed
              else if channels header \<noteq> 1 then Inl CheckFailed
              else (case resize_destination st ROWS COLS header m of
                Inl e \<Rightarrow> Inl e
              | Inr m1 \<Rightarrow>
                  let matrix_size = size_t_of_nat (sizeof st * mrows m1 * mcols m1);
                      total_size = size_t_of_nat (matrix_size + HeaderInformation_size)
                  in if size_in \<noteq> total_size then Inl CheckFailed
                     else (case buffer of
                       None \<Rightarrow> Inl UndefinedBehaviour
                     | Some b \<Rightarrow>
                         (case memcpy (mdata m1) 0 b HeaderInformation_size matrix_size of
                            None \<Rightarrow> Inl UndefinedBehaviour
                          | Some d \<Rightarrow> Inr (True, m1\<lparr>mdata := d\<rparr>))))))"

definition deSerializeFromString ::
  "header_reader \<Rightarrow> scalar_traits \<Rightarrow> int \<Rightarrow> int \<Rightarrow> byte list \<Rightarrow> Matrix option
     \<Rightarrow> failure + (bool \<times> Matrix)" where
  "deSerializeFromString hr st ROWS COLS string matrix =
     (case matrix of
        None \<Rightarrow> Inl CheckFailed
      | Some m \<Rightarrow> deSerializeFromBuffer hr st ROWS COLS (Some string) (length string) matrix)"

subsection \<open>Scalars as text\<close>














subsection \<open>Scalars as raw bytes\<close>

text \<open>A scalar object is the \<^verbatim>\<open>sizeof(SCALAR)\<close> bytes of its representation.\<close>

definition sizeof_pointer :: nat where
  "sizeof_pointer = 8"

definition serializeToBuffer_scalar ::
  "scalar_traits \<Rightarrow> heap \<Rightarrow> byte list \<Rightarrow> nat option option \<Rightarrow> nat option
     \<Rightarrow> failure + (bool \<times> heap \<times> nat option \<times> nat)" where
  \<comment> \<open>returns the \<^verbatim>\<open>bool\<close>, the heap, \<^verbatim>\<open>*buffer\<close> and \<^verbatim>\<open>*size\<close>\<close>
  "serializeToBuffer_scalar st hp v buffer size_io =
     (case buffer of
        None \<Rightarrow> Inl CheckFailed
      | Some _ \<Rightarrow>
     (case size_io of
        None \<Rightarrow> Inl CheckFailed
      | Some sz \<Rightarrow>
          if sizeof st \<noteq> sz then Inl CheckFailed
          else let (a, hp1) = new_chars hp sz
               in (case memcpy (fresh_chars sz) 0 v 0 sz of
                    None \<Rightarrow> Inl UndefinedBehaviour
                  | Some b \<Rightarrow> Inr (True, store_chars hp1 a b, Some a, sz))))"

definition deSerializeFromBuffer_scalar ::
  "scalar_traits \<Rightarrow> byte list option \<Rightarrow> nat \<Rightarrow> byte list option \<Rightarrow> failure + (bool \<times> byte list)" where
  \<comment> \<open>returns the \<^verbatim>\<open>bool\<close> and the contents of \<^verbatim>\<open>*value\<close>. The destination of the copy is
      \<^verbatim>\<open>&value\<close>, the address of the pointer parameter itself: the bytes land in that
      local variable (\<open>sizeof_pointer\<close> bytes, gone at the return), not in \<^verbatim>\<open>*value\<close>.\<close>
  "deSerializeFromBuffer_scalar st buffer size_in v =
     (case v of
        None \<Rightarrow> Inl CheckFailed
      | Some pointee \<Rightarrow>
          if size_in \<noteq> sizeof st then Inl CheckFailed
          else (case buffer of
            None \<Rightarrow> Inl UndefinedBehaviour
          | Some b \<Rightarrow>
              (case memcpy (replicate sizeof_pointer 0) 0 b 0 size_in of
                 None \<Rightarrow> Inl UndefinedBehaviour
               | Some value_parameter \<Rightarrow> Inr (True, pointee))))"

subsection \<open>What the templates expect of the header methods; example types\<close>

definition header_codec_contract :: "header_writer \<Rightarrow> header_reader \<Rightarrow> bool" where
  \<comment> \<open>on a buffer with room for a header the writer succeeds and keeps the length, and
      the reader finds the header again in any buffer that starts with the written bytes\<close>
  "header_codec_contract hw hr \<longleftrightarrow>
     (\<forall>h buf. HeaderInformation_size \<le> length buf \<longrightarrow>
        (\<exists>buf'. hw h buf 0 = Inr (True, buf') \<and> length buf' = length buf \<and>
           (\<forall>b. take HeaderInformation_size b = take HeaderInformation_size buf' \<longrightarrow>
                hr (Some b) 0 = Inr (Some h))))"

definition header_reader_local :: "header_reader \<Rightarrow> bool" where
  \<comment> \<open>the reader looks at the header bytes only\<close>
  "header_reader_local hr \<longleftrightarrow>
     (\<forall>b b'. take HeaderInformation_size b = take HeaderInformation_size b' \<longrightarrow>
        hr (Some b) 0 = hr (Some b') 0)"

definition header_matches :: "scalar_traits \<Rightarrow> int \<Rightarrow> int \<Rightarrow> HeaderInformation \<Rightarrow> bool" where
  \<comment> \<open>the header passes the four checks of lines 115 to 122\<close>
  "header_matches st ROWS COLS h \<longleftrightarrow>
     (ROWS = Dynamic \<or> rows h = word_of_int ROWS) \<and>
     (COLS = Dynamic \<or> cols h = word_of_int COLS) \<and>
     depth h = word_of_int (cv_depth st) \<and> channels h = 1"

definition expected_size :: "scalar_traits \<Rightarrow> Matrix \<Rightarrow> nat" where
  \<comment> \<open>\<^verbatim>\<open>total_size\<close> of line 133, in \<^verbatim>\<open>size_t\<close> arithmetic\<close>
  "expected_size st m =
     size_t_of_nat (size_t_of_nat (sizeof st * mrows m * mcols m) + HeaderInformation_size)"

definition encoded_totalSize :: "scalar_traits \<Rightarrow> int \<Rightarrow> int \<Rightarrow> int \<Rightarrow> nat" where
  \<comment> \<open>\<^verbatim>\<open>totalSize\<close> of lines 45 and 69, in \<^verbatim>\<open>size_t\<close> arithmetic\<close>
  "encoded_totalSize st rows_in cols_in channels_in =
     size_t_of_nat (size_t_of_int (int (sizeof st) * rows_in * cols_in * channels_in)
       + HeaderInformation_size)"

definition encoded_matrixSize :: "scalar_traits \<Rightarrow> int \<Rightarrow> int \<Rightarrow> int \<Rightarrow> nat" where
  \<comment> \<open>\<^verbatim>\<open>matrixSize\<close> of lines 44 and 68, in \<^verbatim>\<open>size_t\<close> arithmetic\<close>
  "encoded_matrixSize st rows_in cols_in channels_in =
     size_t_of_int (int (sizeof st) * rows_in * cols_in * channels_in)"

definition int32_traits :: scalar_traits where
  \<comment> \<open>\<^verbatim>\<open>int\<close>: 4 bytes, \<^verbatim>\<open>CV_32S\<close>\<close>
  "int32_traits = \<lparr>sizeof = 4, cv_depth = 4\<rparr>"

definition uint8_traits :: scalar_traits where
  \<comment> \<open>\<^verbatim>\<open>unsigned char\<close>: 1 byte, \<^verbatim>\<open>CV_8U\<close>\<close>
  "uint8_traits = \<lparr>sizeof = 1, cv_depth = 0\<rparr>"

definition empty_heap :: heap where
  "empty_heap = \<lparr>cells = (\<lambda>_. None), next_addr = 0\<rparr>"

definition failing_writer :: header_writer where
  \<comment> \<open>a header writer that reports failure, leaving the buffer as it is\<close>
  "failing_writer h buffer offset = Inr (False, buffer)"

definition failing_reader :: header_reader where
  \<comment> \<open>a header reader that reports failure\<close>
  "failing_reader bufferIn offset = Inr None"

section \<open>Properties\<close>

subsection \<open>Auxiliary facts\<close>

lemma of_le32_le32: "of_le32 (le32 w) = w"
proof (rule bit_word_eqI)
  fix n assume n: "n < LENGTH(32)"
  consider "n < 8" | "8 \<le> n" "n < 16" | "16 \<le> n" "n < 24" | "24 \<le> n" "n < 32"
    using n by fastforce
  then show "bit (of_le32 (le32 w)) n = bit w n"
    by cases (auto simp add: of_le32_def le32_def bit_simps)
qed

lemma length_le32: "length (le32 w) = 4"
  by (simp add: le32_def)

lemma int_of_Index_small: "n < 2 ^ 31 \<Longrightarrow> int_of_Index n = int n"
  unfolding int_of_Index_def
  by (simp add: signed_of_nat signed_take_bit_int_eq_self take_bit_nat_eq_self)

lemma unat_word_of_int_small: "n < 2 ^ 32 \<Longrightarrow> unat (word_of_int (int n) :: 32 word) = n"
  by (simp add: unat_of_nat)

lemma read_header_bytes:
  assumes "take 16 b = header_bytes h"
  shows "HeaderInformation_deSerializeFromBuffer (Some b) 0 = Inr (Some h)"
proof -
  have len: "16 \<le> length b"
  proof -
    have "length (take 16 b) = 16"
      unfolding assms by (simp add: header_bytes_def length_le32)
    then show ?thesis by simp
  qed
  have t: "take 4 (drop k b) = take 4 (drop k (take 16 b))" if "k + 4 \<le> 16" for k
    using that by (simp add: drop_take)
  have "take 4 b = le32 (rows h)"
    using t [of 0] by (simp add: assms header_bytes_def length_le32)
  moreover have "take 4 (drop 4 b) = le32 (cols h)"
    using t [of 4] by (simp add: assms header_bytes_def length_le32)
  moreover have "take 4 (drop 8 b) = le32 (depth h)"
    using t [of 8] by (simp add: assms header_bytes_def length_le32)
  moreover have "take 4 (drop 12 b) = le32 (channels h)"
    using t [of 12] by (simp add: assms header_bytes_def length_le32)
  ultimately show ?thesis
    using len by (simp add: HeaderInformation_deSerializeFromBuffer_def HeaderInformation_size_def of_le32_le32)
qed

lemma HeaderInformation_codec_contract:
  "header_codec_contract HeaderInformation_serializeToBuffer HeaderInformation_deSerializeFromBuffer"
  unfolding header_codec_contract_def
proof (intro allI impI)
  fix h :: HeaderInformation and buf :: "byte list"
  assume len: "HeaderInformation_size \<le> length buf"
  let ?b = "header_bytes h @ drop 16 buf"
  have w: "HeaderInformation_serializeToBuffer h buf 0 = Inr (True, ?b)"
    using len by (simp add: HeaderInformation_serializeToBuffer_def memcpy_def
        HeaderInformation_size_def header_bytes_def length_le32)
  have "length ?b = length buf"
    using len by (simp add: header_bytes_def length_le32 HeaderInformation_size_def)
  moreover have "HeaderInformation_deSerializeFromBuffer (Some b) 0 = Inr (Some h)"
    if "take HeaderInformation_size b = take HeaderInformation_size ?b" for b
    using that by (intro read_header_bytes) (simp add: HeaderInformation_size_def header_bytes_def length_le32)
  ultimately show "\<exists>buf'. HeaderInformation_serializeToBuffer h buf 0 = Inr (True, buf') \<and>
      length buf' = length buf \<and>
      (\<forall>b. take HeaderInformation_size b = take HeaderInformation_size buf' \<longrightarrow>
           HeaderInformation_deSerializeFromBuffer (Some b) 0 = Inr (Some h))"
    using w by blast
qed

lemma size_t_of_int_small: "n < 2 ^ 64 \<Longrightarrow> size_t_of_int (int n) = n"
  by (simp add: size_t_of_int_def nat_mod_distrib)

lemma size_t_of_nat_small: "n < 2 ^ 64 \<Longrightarrow> size_t_of_nat n = n"
  by (simp add: size_t_of_nat_def)

lemma serializeToString_raw_ok:
  assumes c: "header_codec_contract hw hr"
    and len: "length md = sizeof st * r * c"
    and fits: "sizeof st * r * c + 16 < 2 ^ 64"
  shows "\<exists>hb. length hb = 16 \<and>
           serializeToString_raw hw st (Some md) (int r) (int c) 1 (Some s0) = Inr (True, hb @ md) \<and>
           (\<forall>b. take 16 b = hb \<longrightarrow> hr (Some b) 0 = Inr (Some (makeHeaderInformation st (int r) (int c) 1)))"
proof -
  let ?h = "makeHeaderInformation st (int r) (int c) 1"
  let ?n = "sizeof st * r * c"
  let ?s1 = "string_resize s0 (?n + 16)"
  have ms: "size_t_of_int (int (sizeof st) * int r * int c * 1) = ?n"
    using fits size_t_of_int_small [of ?n] by simp
  have ts: "size_t_of_nat (?n + HeaderInformation_size) = ?n + 16"
    using fits by (simp add: size_t_of_nat_small HeaderInformation_size_def)
  have l1: "length ?s1 = ?n + 16"
    by (simp add: string_resize_def)
  then have "HeaderInformation_size \<le> length ?s1"
    by (simp add: HeaderInformation_size_def)
  with c obtain buf' where w: "hw ?h ?s1 0 = Inr (True, buf')" and lb: "length buf' = length ?s1"
    and rd: "\<And>b. take HeaderInformation_size b = take HeaderInformation_size buf' \<Longrightarrow> hr (Some b) 0 = Inr (Some ?h)"
    unfolding header_codec_contract_def by blast
  have cp: "memcpy buf' HeaderInformation_size md 0 ?n = Some (take 16 buf' @ md)"
    using lb l1 len by (simp add: memcpy_def HeaderInformation_size_def)
  have "serializeToString_raw hw st (Some md) (int r) (int c) 1 (Some s0) = Inr (True, take 16 buf' @ md)"
    unfolding serializeToString_raw_def Let_def ms ts using w cp by simp
  moreover have "length (take 16 buf') = 16"
    using lb l1 by simp
  moreover have "\<forall>b. take 16 b = take 16 buf' \<longrightarrow> hr (Some b) 0 = Inr (Some ?h)"
    using rd by (simp add: HeaderInformation_size_def)
  ultimately show ?thesis by blast
qed

lemma serializeToBuffer_raw_ok:
  assumes c: "header_codec_contract hw hr"
    and len: "length md = sizeof st * r * c"
    and fits: "sizeof st * r * c + 16 < 2 ^ 64"
  shows "\<exists>hb. length hb = 16 \<and>
           serializeToBuffer_raw hw st hp (Some md) (int r) (int c) 1 (Some p0) (Some n0) =
             Inr (True, store_chars (snd (new_chars hp (sizeof st * r * c + 16))) (next_addr hp) (hb @ md),
                  Some (next_addr hp), sizeof st * r * c + 16) \<and>
           (\<forall>b. take 16 b = hb \<longrightarrow> hr (Some b) 0 = Inr (Some (makeHeaderInformation st (int r) (int c) 1)))"
proof -
  let ?h = "makeHeaderInformation st (int r) (int c) 1"
  let ?n = "sizeof st * r * c"
  let ?s1 = "fresh_chars (?n + 16)"
  have ms: "size_t_of_int (int (sizeof st) * int r * int c * 1) = ?n"
    using fits size_t_of_int_small [of ?n] by simp
  have ts: "size_t_of_nat (?n + HeaderInformation_size) = ?n + 16"
    using fits by (simp add: size_t_of_nat_small HeaderInformation_size_def)
  have l1: "length ?s1 = ?n + 16"
    by (simp add: fresh_chars_def)
  then have "HeaderInformation_size \<le> length ?s1"
    by (simp add: HeaderInformation_size_def)
  with c obtain buf' where w: "hw ?h ?s1 0 = Inr (True, buf')" and lb: "length buf' = length ?s1"
    and rd: "\<And>b. take HeaderInformation_size b = take HeaderInformation_size buf' \<Longrightarrow> hr (Some b) 0 = Inr (Some ?h)"
    unfolding header_codec_contract_def by blast
  have cp: "memcpy buf' HeaderInformation_size md 0 ?n = Some (take 16 buf' @ md)"
    using lb l1 len by (simp add: memcpy_def HeaderInformation_size_def)
  have "serializeToBuffer_raw hw st hp (Some md) (int r) (int c) 1 (Some p0) (Some n0) =
     Inr (True, store_chars (snd (new_chars hp (?n + 16))) (next_addr hp) (take 16 buf' @ md),
                  Some (next_addr hp), ?n + 16)"
    unfolding serializeToBuffer_raw_def Let_def ms ts using w cp by (simp add: new_chars_def)
  moreover have "length (take 16 buf') = 16"
    using lb l1 by simp
  moreover have "\<forall>b. take 16 b = take 16 buf' \<longrightarrow> hr (Some b) 0 = Inr (Some ?h)"
    using rd by (simp add: HeaderInformation_size_def)
  ultimately show ?thesis by blast
qed

lemma Matrix_resize_ok:
  assumes "r * c < 2 ^ 63" "sizeof st * r * c < 2 ^ 64"
    and "length (mdata m) = sizeof st * mrows m * mcols m"
  shows "\<exists>d. Matrix_resize st m r c = Inr \<lparr>mrows = r, mcols = c, mdata = d\<rparr> \<and> length d = sizeof st * r * c"
  using assms by (simp add: Matrix_resize_def mult.assoc)

lemma resize_destination_ok:
  assumes wf: "wf_Matrix st ROWS COLS m"
    and R: "ROWS = Dynamic \<or> nat ROWS = r" and C: "COLS = Dynamic \<or> nat COLS = c"
    and hr: "unat (rows h) = r" and hc: "unat (cols h) = c"
    and rc: "r * c < 2 ^ 63" and fits: "sizeof st * r * c < 2 ^ 64"
  shows "\<exists>d. resize_destination st ROWS COLS h m = Inr \<lparr>mrows = r, mcols = c, mdata = d\<rparr> \<and>
              length d = sizeof st * r * c"
proof -
  have len: "length (mdata m) = sizeof st * mrows m * mcols m"
    using wf by (simp add: wf_Matrix_def)
  have mr: "mrows m = r" if "ROWS \<noteq> Dynamic"
    using wf R that by (auto simp add: wf_Matrix_def)
  have mc: "mcols m = c" if "COLS \<noteq> Dynamic"
    using wf C that by (auto simp add: wf_Matrix_def)
  consider "ROWS = Dynamic" "COLS = Dynamic" | "ROWS = Dynamic" "COLS \<noteq> Dynamic"
    | "ROWS \<noteq> Dynamic" "COLS = Dynamic" | "ROWS \<noteq> Dynamic" "COLS \<noteq> Dynamic"
    by blast
  then show ?thesis
  proof cases
    case 1
    then show ?thesis
      using Matrix_resize_ok [OF rc fits len] by (simp add: resize_destination_def hr hc)
  next
    case 2
    then show ?thesis
      using Matrix_resize_ok [OF rc fits len] mc by (simp add: resize_destination_def hr hc)
  next
    case 3
    then show ?thesis
      using Matrix_resize_ok [OF rc fits len] mr by (simp add: resize_destination_def hr hc)
  next
    case 4
    have "m = \<lparr>mrows = r, mcols = c, mdata = mdata m\<rparr>"
      using mr mc 4 by simp
    moreover have "length (mdata m) = sizeof st * r * c"
      using 4 len mr mc by simp
    moreover have "resize_destination st ROWS COLS h m = Inr m"
      using 4 by (simp add: resize_destination_def)
    ultimately show ?thesis
      by metis
  qed
qed

lemma deSerializeFromBuffer_ok:
  assumes rd: "hr (Some (hb @ md)) 0 = Inr (Some (makeHeaderInformation st (int r) (int c) 1))"
    and hb: "length hb = 16"
    and len: "length md = sizeof st * r * c"
    and fits: "sizeof st * r * c + 16 < 2 ^ 64"
    and r: "r < 2 ^ 31" and c: "c < 2 ^ 31"
    and wf: "wf_Matrix st ROWS COLS m"
    and R: "ROWS = Dynamic \<or> nat ROWS = r" and C: "COLS = Dynamic \<or> nat COLS = c"
  shows "deSerializeFromBuffer hr st ROWS COLS (Some (hb @ md)) (sizeof st * r * c + 16) (Some m) =
           Inr (True, \<lparr>mrows = r, mcols = c, mdata = md\<rparr>)"
proof -
  let ?h = "makeHeaderInformation st (int r) (int c) 1"
  let ?n = "sizeof st * r * c"
  have ur: "unat (rows ?h) = r" and uc: "unat (cols ?h) = c"
    using r c by (simp_all add: makeHeaderInformation_def unat_of_nat)
  have "r * c < 2 ^ 31 * 2 ^ 31"
    using r c by (intro mult_strict_mono) simp_all
  then have rc: "r * c < 2 ^ 63" by simp
  have fits': "?n < 2 ^ 64" using fits by simp
  obtain d where rs: "resize_destination st ROWS COLS ?h m = Inr \<lparr>mrows = r, mcols = c, mdata = d\<rparr>"
    and ld: "length d = ?n"
    using resize_destination_ok [OF wf R C ur uc rc fits'] by blast
  have vr: "\<not> (ROWS \<noteq> Dynamic \<and> rows ?h \<noteq> word_of_int ROWS)"
    using wf R by (auto simp add: makeHeaderInformation_def wf_Matrix_def)
  have vc: "\<not> (COLS \<noteq> Dynamic \<and> cols ?h \<noteq> word_of_int COLS)"
    using wf C by (auto simp add: makeHeaderInformation_def wf_Matrix_def)
  have vd: "depth ?h = word_of_int (cv_depth st)" and vch: "channels ?h = 1"
    by (simp_all add: makeHeaderInformation_def)
  have ms: "size_t_of_nat ?n = ?n"
    using fits' by (simp add: size_t_of_nat_small)
  have ts: "size_t_of_nat (?n + HeaderInformation_size) = ?n + 16"
    using fits by (simp add: size_t_of_nat_small HeaderInformation_size_def)
  have cp: "memcpy d 0 (hb @ md) HeaderInformation_size ?n = Some md"
    using ld hb len by (simp add: memcpy_def HeaderInformation_size_def)
  have sz: "\<not> ?n + 16 < HeaderInformation_size"
    by (simp add: HeaderInformation_size_def)
  show ?thesis
    unfolding deSerializeFromBuffer_def using vr vc
    by (simp add: rd vd vch rs ms ts cp sz del: One_nat_def)
qed

lemma example_serializeToString:
  "serializeToString_matrix HeaderInformation_serializeToBuffer int32_traits
     \<lparr>mrows = 2, mcols = 1, mdata = [1, 0, 0, 0, 2, 0, 0, 0]\<rparr> (Some []) =
   Inr (True, [2, 0, 0, 0, 1, 0, 0, 0, 4, 0, 0, 0, 1, 0, 0, 0, 1, 0, 0, 0, 2, 0, 0, 0])"
  by (simp add: serializeToString_matrix_def serializeToString_raw_def int_of_Index_def
      makeHeaderInformation_def int32_traits_def size_t_of_int_def size_t_of_nat_def
      HeaderInformation_size_def string_resize_def HeaderInformation_serializeToBuffer_def
      header_bytes_def memcpy_def le32_def)

lemma serializeToString_wrapped_rows:
  assumes "int_of_Index n = 0"
  shows "serializeToString_matrix HeaderInformation_serializeToBuffer uint8_traits
     \<lparr>mrows = n, mcols = 1, mdata = md\<rparr> (Some []) =
     Inr (True, [0, 0, 0, 0, 1, 0, 0, 0, 0, 0, 0, 0, 1, 0, 0, 0])"
proof -
  have one: "int_of_Index 1 = 1"
    by (simp add: int_of_Index_def)
  show ?thesis
    unfolding serializeToString_matrix_def Matrix.simps assms one
    by (simp add: serializeToString_raw_def
      makeHeaderInformation_def uint8_traits_def size_t_of_int_def size_t_of_nat_def
      HeaderInformation_size_def string_resize_def HeaderInformation_serializeToBuffer_def
      header_bytes_def memcpy_def le32_def)
qed

lemma example_deSerialize_header_only:
  "deSerializeFromString HeaderInformation_deSerializeFromBuffer uint8_traits Dynamic Dynamic
       [0, 0, 0, 0, 1, 0, 0, 0, 0, 0, 0, 0, 1, 0, 0, 0] (Some \<lparr>mrows = 0, mcols = 0, mdata = []\<rparr>) =
     Inr (True, \<lparr>mrows = 0, mcols = 1, mdata = []\<rparr>)"
  by (simp add: deSerializeFromString_def deSerializeFromBuffer_def HeaderInformation_size_def
      HeaderInformation_deSerializeFromBuffer_def of_le32_def Dynamic_def uint8_traits_def
      resize_destination_def Matrix_resize_def size_t_of_nat_def memcpy_def)


subsection \<open>Matrix round trip\<close>

text \<open>
  Claim C1, as amended. For every matrix \<open>M\<close> of type \<^verbatim>\<open>Eigen::Matrix<SCALAR, ROWS, COLS>\<close>
  whose row and column counts are below \<open>2 ^ 31\<close> (they pass through \<^verbatim>\<open>int\<close> parameters and
  32-bit header fields) and whose serialized form (16 header bytes and the coefficient
  bytes) is shorter than \<open>2 ^ 64\<close> bytes, and for header methods that read back what they
  wrote: serializing \<open>M\<close> and deserializing the result into any destination \<open>M0\<close> of the same
  matrix type returns \<^verbatim>\<open>true\<close> twice and leaves the destination equal to \<open>M\<close> (same rows,
  same columns, same coefficient bytes), both through \<^verbatim>\<open>serializeToString\<close> and
  \<^verbatim>\<open>deSerializeFromString\<close> and through \<^verbatim>\<open>serializeToBuffer\<close> and \<^verbatim>\<open>deSerializeFromBuffer\<close>
  applied to the returned buffer and size.
\<close>

theorem matrix_roundtrip:
  assumes c: "header_codec_contract hw hr"
    and wf: "wf_Matrix st ROWS COLS M"
    and wf0: "wf_Matrix st ROWS COLS M0"
    and r: "mrows M < 2 ^ 31" and cl: "mcols M < 2 ^ 31"
    and fits: "length (mdata M) + 16 < 2 ^ 64"
  shows "(\<exists>s. serializeToString_matrix hw st M (Some s0) = Inr (True, s) \<and>
             deSerializeFromString hr st ROWS COLS s (Some M0) = Inr (True, M)) \<and>
         (\<exists>hp' a n. serializeToBuffer_matrix hw st hp M (Some p0) (Some n0) = Inr (True, hp', Some a, n) \<and>
             deSerializeFromBuffer hr st ROWS COLS (cells hp' a) n (Some M0) = Inr (True, M))"
proof -
  let ?r = "mrows M" and ?c = "mcols M" and ?md = "mdata M"
  let ?n = "sizeof st * ?r * ?c"
  have len: "length ?md = ?n"
    using wf by (simp add: wf_Matrix_def)
  have fits': "?n + 16 < 2 ^ 64"
    using fits len by simp
  have R: "ROWS = Dynamic \<or> nat ROWS = ?r" and C: "COLS = Dynamic \<or> nat COLS = ?c"
    using wf by (auto simp add: wf_Matrix_def)
  have M: "\<lparr>mrows = ?r, mcols = ?c, mdata = ?md\<rparr> = M"
    by simp
  have dec: "deSerializeFromBuffer hr st ROWS COLS (Some (hb @ ?md)) (?n + 16) (Some M0) = Inr (True, M)"
    if "length hb = 16"
      and "\<forall>b. take 16 b = hb \<longrightarrow> hr (Some b) 0 = Inr (Some (makeHeaderInformation st (int ?r) (int ?c) 1))"
    for hb
  proof -
    have "hr (Some (hb @ ?md)) 0 = Inr (Some (makeHeaderInformation st (int ?r) (int ?c) 1))"
      using that by simp
    then have "deSerializeFromBuffer hr st ROWS COLS (Some (hb @ ?md)) (?n + 16) (Some M0) =
        Inr (True, \<lparr>mrows = ?r, mcols = ?c, mdata = ?md\<rparr>)"
      using that(1) len fits' r cl wf0 R C by (rule deSerializeFromBuffer_ok)
    then show ?thesis
      unfolding M .
  qed
  have "\<exists>s. serializeToString_matrix hw st M (Some s0) = Inr (True, s) \<and>
             deSerializeFromString hr st ROWS COLS s (Some M0) = Inr (True, M)"
  proof -
    obtain hb where hb: "length hb = 16"
      and enc: "serializeToString_raw hw st (Some ?md) (int ?r) (int ?c) 1 (Some s0) = Inr (True, hb @ ?md)"
      and rd: "\<forall>b. take 16 b = hb \<longrightarrow> hr (Some b) 0 = Inr (Some (makeHeaderInformation st (int ?r) (int ?c) 1))"
      using serializeToString_raw_ok [OF c len fits'] by blast
    have "serializeToString_matrix hw st M (Some s0) = Inr (True, hb @ ?md)"
      using enc r cl by (simp add: serializeToString_matrix_def int_of_Index_small)
    moreover have "deSerializeFromString hr st ROWS COLS (hb @ ?md) (Some M0) = Inr (True, M)"
      using dec [OF hb rd] hb len by (simp add: deSerializeFromString_def add.commute)
    ultimately show ?thesis by blast
  qed
  moreover have "\<exists>hp' a n. serializeToBuffer_matrix hw st hp M (Some p0) (Some n0) = Inr (True, hp', Some a, n) \<and>
             deSerializeFromBuffer hr st ROWS COLS (cells hp' a) n (Some M0) = Inr (True, M)"
  proof -
    let ?hp = "\<lambda>hb. store_chars (snd (new_chars hp (?n + 16))) (next_addr hp) (hb @ ?md)"
    obtain hb where hb: "length hb = 16"
      and enc: "serializeToBuffer_raw hw st hp (Some ?md) (int ?r) (int ?c) 1 (Some p0) (Some n0) =
                  Inr (True, ?hp hb, Some (next_addr hp), ?n + 16)"
      and rd: "\<forall>b. take 16 b = hb \<longrightarrow> hr (Some b) 0 = Inr (Some (makeHeaderInformation st (int ?r) (int ?c) 1))"
      using serializeToBuffer_raw_ok [OF c len fits'] by blast
    have "serializeToBuffer_matrix hw st hp M (Some p0) (Some n0) = Inr (True, ?hp hb, Some (next_addr hp), ?n + 16)"
      using enc r cl by (simp add: serializeToBuffer_matrix_def int_of_Index_small)
    moreover have "cells (?hp hb) (next_addr hp) = Some (hb @ ?md)"
      by (simp add: store_chars_def)
    ultimately show ?thesis
      using dec [OF hb rd] by metis
  qed
  ultimately show ?thesis by blast
qed

text \<open>
  The round trip at a 2 by 1 matrix of \<^verbatim>\<open>int\<close> holding 1 and 2, decoded into an empty dynamic
  matrix, with the header methods of the spec.
\<close>

theorem matrix_roundtrip_witness:
  "header_codec_contract HeaderInformation_serializeToBuffer HeaderInformation_deSerializeFromBuffer \<and>
   wf_Matrix int32_traits Dynamic Dynamic \<lparr>mrows = 2, mcols = 1, mdata = [1, 0, 0, 0, 2, 0, 0, 0]\<rparr> \<and>
   wf_Matrix int32_traits Dynamic Dynamic \<lparr>mrows = 0, mcols = 0, mdata = []\<rparr> \<and>
   serializeToString_matrix HeaderInformation_serializeToBuffer int32_traits
       \<lparr>mrows = 2, mcols = 1, mdata = [1, 0, 0, 0, 2, 0, 0, 0]\<rparr> (Some []) =
     Inr (True, [2, 0, 0, 0, 1, 0, 0, 0, 4, 0, 0, 0, 1, 0, 0, 0, 1, 0, 0, 0, 2, 0, 0, 0]) \<and>
   deSerializeFromString HeaderInformation_deSerializeFromBuffer int32_traits Dynamic Dynamic
       [2, 0, 0, 0, 1, 0, 0, 0, 4, 0, 0, 0, 1, 0, 0, 0, 1, 0, 0, 0, 2, 0, 0, 0]
       (Some \<lparr>mrows = 0, mcols = 0, mdata = []\<rparr>) =
     Inr (True, \<lparr>mrows = 2, mcols = 1, mdata = [1, 0, 0, 0, 2, 0, 0, 0]\<rparr>) \<and>
   (\<exists>hp' a n. serializeToBuffer_matrix HeaderInformation_serializeToBuffer int32_traits empty_heap
         \<lparr>mrows = 2, mcols = 1, mdata = [1, 0, 0, 0, 2, 0, 0, 0]\<rparr> (Some None) (Some 0) =
         Inr (True, hp', Some a, n) \<and>
       deSerializeFromBuffer HeaderInformation_deSerializeFromBuffer int32_traits Dynamic Dynamic
         (cells hp' a) n (Some \<lparr>mrows = 0, mcols = 0, mdata = []\<rparr>) =
         Inr (True, \<lparr>mrows = 2, mcols = 1, mdata = [1, 0, 0, 0, 2, 0, 0, 0]\<rparr>))"
proof -
  let ?M = "\<lparr>mrows = 2, mcols = 1, mdata = [1, 0, 0, 0, 2, 0, 0, 0 :: byte]\<rparr>"
  let ?D = "\<lparr>mrows = 0, mcols = 0, mdata = [] :: byte list\<rparr>"
  have h1: "header_codec_contract HeaderInformation_serializeToBuffer HeaderInformation_deSerializeFromBuffer"
    by (rule HeaderInformation_codec_contract)
  have h2: "wf_Matrix int32_traits Dynamic Dynamic ?M"
    by (simp add: wf_Matrix_def int32_traits_def)
  have h3: "wf_Matrix int32_traits Dynamic Dynamic ?D"
    by (simp add: wf_Matrix_def int32_traits_def)
  have h4: "mrows ?M < 2 ^ 31" and h5: "mcols ?M < 2 ^ 31" and h6: "length (mdata ?M) + 16 < 2 ^ 64"
    by simp_all
  note rt = matrix_roundtrip [OF h1 h2 h3 h4 h5 h6, of "[]" empty_heap None 0]
  from rt obtain s where
    a: "serializeToString_matrix HeaderInformation_serializeToBuffer int32_traits ?M (Some []) = Inr (True, s)"
    and b: "deSerializeFromString HeaderInformation_deSerializeFromBuffer int32_traits Dynamic Dynamic s (Some ?D) = Inr (True, ?M)"
    by (elim conjE exE)
  have seq: "s = [2, 0, 0, 0, 1, 0, 0, 0, 4, 0, 0, 0, 1, 0, 0, 0, 1, 0, 0, 0, 2, 0, 0, 0]"
    using a unfolding example_serializeToString by simp
  note b' = b [unfolded seq]
  show ?thesis
    apply (intro conjI)
         apply (rule h1)
        apply (rule h2)
       apply (rule h3)
      apply (rule example_serializeToString)
     apply (rule b')
    apply (rule conjunct2 [OF rt])
    done
qed

text \<open>
  Claim C1 as stated fails for a matrix whose row count does not fit the \<^verbatim>\<open>int\<close> parameter:
  a dynamic matrix of \<open>2 ^ 32\<close> rows and one column of \<^verbatim>\<open>unsigned char\<close> is serialized with
  \<open>rows = 0\<close> in the header and no payload, and decoding returns \<^verbatim>\<open>true\<close> with a 0 by 1
  matrix.
\<close>

theorem matrix_roundtrip_counterexample:
  "wf_Matrix uint8_traits Dynamic Dynamic \<lparr>mrows = 2 ^ 32, mcols = 1, mdata = replicate (2 ^ 32) 0\<rparr> \<and>
   serializeToString_matrix HeaderInformation_serializeToBuffer uint8_traits
       \<lparr>mrows = 2 ^ 32, mcols = 1, mdata = replicate (2 ^ 32) 0\<rparr> (Some []) =
     Inr (True, [0, 0, 0, 0, 1, 0, 0, 0, 0, 0, 0, 0, 1, 0, 0, 0]) \<and>
   deSerializeFromString HeaderInformation_deSerializeFromBuffer uint8_traits Dynamic Dynamic
       [0, 0, 0, 0, 1, 0, 0, 0, 0, 0, 0, 0, 1, 0, 0, 0] (Some \<lparr>mrows = 0, mcols = 0, mdata = []\<rparr>) =
     Inr (True, \<lparr>mrows = 0, mcols = 1, mdata = []\<rparr>) \<and>
   \<lparr>mrows = 0, mcols = 1, mdata = []\<rparr> \<noteq> \<lparr>mrows = 2 ^ 32, mcols = 1, mdata = replicate (2 ^ 32) (0 :: byte)\<rparr>"
proof -
  have "int_of_Index (2 ^ 32) = 0"
    by (simp add: int_of_Index_def)
  then have "serializeToString_matrix HeaderInformation_serializeToBuffer uint8_traits
       \<lparr>mrows = 2 ^ 32, mcols = 1, mdata = replicate (2 ^ 32) 0\<rparr> (Some []) =
     Inr (True, [0, 0, 0, 0, 1, 0, 0, 0, 0, 0, 0, 0, 1, 0, 0, 0])"
    by (rule serializeToString_wrapped_rows)
  moreover have "wf_Matrix uint8_traits Dynamic Dynamic \<lparr>mrows = 2 ^ 32, mcols = 1, mdata = replicate (2 ^ 32) 0\<rparr>"
    by (simp add: wf_Matrix_def uint8_traits_def)
  moreover have "\<lparr>mrows = 0, mcols = 1, mdata = []\<rparr> \<noteq> \<lparr>mrows = 2 ^ 32, mcols = 1, mdata = replicate (2 ^ 32) (0 :: byte)\<rparr>"
    by simp
  ultimately show ?thesis
    using example_deSerialize_header_only by (intro conjI)
qed

subsection \<open>Scalar raw round trip\<close>

lemma deSerializeFromBuffer_scalar_keeps_destination:
  assumes "deSerializeFromBuffer_scalar st buffer size_in (Some v) = Inr (ok, v')"
  shows "v' = v"
  using assms
  by (auto simp add: deSerializeFromBuffer_scalar_def split: if_splits option.splits)

text \<open>
  Claim C2 says that decoding the buffer of the raw scalar encoding stores the encoded value
  into the destination scalar: 42 comes back as 42. The code does not: the copy of
  \<^verbatim>\<open>deSerializeFromBuffer\<close> goes to \<^verbatim>\<open>&value\<close>, the pointer parameter, so the destination
  keeps what it held. Encoding the 4-byte integer 42 gives the buffer \<open>[42, 0, 0, 0]\<close>, and
  decoding that buffer into a scalar holding 0 returns \<^verbatim>\<open>true\<close> with the scalar still 0.
\<close>

theorem scalar_raw_decode_loses_value:
  "serializeToBuffer_scalar int32_traits empty_heap [42, 0, 0, 0] (Some None) (Some 4) =
     Inr (True, \<lparr>cells = (cells empty_heap)(0 \<mapsto> [42, 0, 0, 0]), next_addr = 1\<rparr>, Some 0, 4) \<and>
   deSerializeFromBuffer_scalar int32_traits (Some [42, 0, 0, 0]) 4 (Some [0, 0, 0, 0]) =
     Inr (True, [0, 0, 0, 0])"
  by (simp add: serializeToBuffer_scalar_def deSerializeFromBuffer_scalar_def int32_traits_def
      new_chars_def fresh_chars_def store_chars_def empty_heap_def memcpy_def sizeof_pointer_def)

subsection \<open>Sign checks of the raw-pointer encoders\<close>

lemma le32_minus_one: "le32 (- 1) = [255, 255, 255, 255]"
proof -
  have m: "(- 1 :: 32 word) = 4294967295"
    by simp
  have "le32 4294967295 = [255, 255, 255, 255]"
    by (simp add: le32_def)
  then show ?thesis
    unfolding m .
qed

lemma le32_minus_two: "le32 (- 2) = [254, 255, 255, 255]"
proof -
  have m: "(- 2 :: 32 word) = 4294967294"
    by simp
  have "le32 4294967294 = [254, 255, 255, 255]"
    by (simp add: le32_def)
  then show ?thesis
    unfolding m .
qed

lemma serializeToString_raw_returns:
  assumes c: "header_codec_contract hw hr"
    and r: "0 \<le> rows_in" and cl: "0 \<le> cols_in"
    and fits: "encoded_matrixSize st rows_in cols_in channels_in + HeaderInformation_size < 2 ^ 64"
    and rdbl: "encoded_matrixSize st rows_in cols_in channels_in \<le> length md"
  shows "\<exists>hb. serializeToString_raw hw st (Some md) rows_in cols_in channels_in (Some s0) =
             Inr (True, hb @ take (encoded_matrixSize st rows_in cols_in channels_in) md) \<and>
           hr (Some (hb @ take (encoded_matrixSize st rows_in cols_in channels_in) md)) 0 =
             Inr (Some (makeHeaderInformation st rows_in cols_in channels_in))"
proof -
  let ?h = "makeHeaderInformation st rows_in cols_in channels_in"
  let ?k = "encoded_matrixSize st rows_in cols_in channels_in"
  let ?s1 = "string_resize s0 (?k + 16)"
  have ms: "size_t_of_int (int (sizeof st) * rows_in * cols_in * channels_in) = ?k"
    by (simp add: encoded_matrixSize_def)
  have ts: "size_t_of_nat (?k + HeaderInformation_size) = ?k + 16"
    using fits by (simp add: size_t_of_nat_def HeaderInformation_size_def)
  have l1: "length ?s1 = ?k + 16"
    by (simp add: string_resize_def)
  then have "HeaderInformation_size \<le> length ?s1"
    by (simp add: HeaderInformation_size_def)
  with c obtain buf' where w: "hw ?h ?s1 0 = Inr (True, buf')" and lb: "length buf' = length ?s1"
    and rd: "\<And>b. take HeaderInformation_size b = take HeaderInformation_size buf' \<Longrightarrow>
               hr (Some b) 0 = Inr (Some ?h)"
    unfolding header_codec_contract_def by blast
  have cp: "memcpy buf' HeaderInformation_size md 0 ?k = Some (take 16 buf' @ take ?k md)"
    using lb l1 rdbl by (simp add: memcpy_def HeaderInformation_size_def)
  have "serializeToString_raw hw st (Some md) rows_in cols_in channels_in (Some s0) =
      Inr (True, take 16 buf' @ take ?k md)"
    unfolding serializeToString_raw_def Let_def ms ts using w cp r cl by simp
  moreover have "hr (Some (take 16 buf' @ take ?k md)) 0 = Inr (Some ?h)"
    using lb l1 by (intro rd) (simp add: HeaderInformation_size_def)
  ultimately show ?thesis by blast
qed

lemma serializeToBuffer_raw_returns:
  assumes c: "header_codec_contract hw hr"
    and fits: "encoded_matrixSize st rows_in cols_in channels_in + HeaderInformation_size < 2 ^ 64"
    and rdbl: "encoded_matrixSize st rows_in cols_in channels_in \<le> length md"
  shows "\<exists>hb hp'. serializeToBuffer_raw hw st hp (Some md) rows_in cols_in channels_in (Some p0) (Some n0) =
             Inr (True, hp', Some (next_addr hp),
                  encoded_matrixSize st rows_in cols_in channels_in + HeaderInformation_size) \<and>
           cells hp' (next_addr hp) =
             Some (hb @ take (encoded_matrixSize st rows_in cols_in channels_in) md) \<and>
           hr (Some (hb @ take (encoded_matrixSize st rows_in cols_in channels_in) md)) 0 =
             Inr (Some (makeHeaderInformation st rows_in cols_in channels_in))"
proof -
  let ?h = "makeHeaderInformation st rows_in cols_in channels_in"
  let ?k = "encoded_matrixSize st rows_in cols_in channels_in"
  let ?s1 = "fresh_chars (?k + 16)"
  have ms: "size_t_of_int (int (sizeof st) * rows_in * cols_in * channels_in) = ?k"
    by (simp add: encoded_matrixSize_def)
  have ts: "size_t_of_nat (?k + HeaderInformation_size) = ?k + 16"
    using fits by (simp add: size_t_of_nat_def HeaderInformation_size_def)
  have l1: "length ?s1 = ?k + 16"
    by (simp add: fresh_chars_def)
  then have "HeaderInformation_size \<le> length ?s1"
    by (simp add: HeaderInformation_size_def)
  with c obtain buf' where w: "hw ?h ?s1 0 = Inr (True, buf')" and lb: "length buf' = length ?s1"
    and rd: "\<And>b. take HeaderInformation_size b = take HeaderInformation_size buf' \<Longrightarrow>
               hr (Some b) 0 = Inr (Some ?h)"
    unfolding header_codec_contract_def by blast
  have cp: "memcpy buf' HeaderInformation_size md 0 ?k = Some (take 16 buf' @ take ?k md)"
    using lb l1 rdbl by (simp add: memcpy_def HeaderInformation_size_def)
  let ?hp = "store_chars (snd (new_chars hp (?k + 16))) (next_addr hp) (take 16 buf' @ take ?k md)"
  have "serializeToBuffer_raw hw st hp (Some md) rows_in cols_in channels_in (Some p0) (Some n0) =
      Inr (True, ?hp, Some (next_addr hp), ?k + HeaderInformation_size)"
    unfolding serializeToBuffer_raw_def Let_def ms ts using w cp
    by (simp add: new_chars_def HeaderInformation_size_def)
  moreover have "cells ?hp (next_addr hp) = Some (take 16 buf' @ take ?k md)"
    by (simp add: store_chars_def)
  moreover have "hr (Some (take 16 buf' @ take ?k md)) 0 = Inr (Some ?h)"
    using lb l1 by (intro rd) (simp add: HeaderInformation_size_def)
  ultimately show ?thesis by blast
qed

text \<open>
  Claim C3, as amended. The raw-pointer encoder to a string, \<^verbatim>\<open>serializeToString\<close>, fails
  fatally when \<open>rows\<close> or \<open>cols\<close> is negative. Neither raw-pointer encoder checks the sign
  of \<open>channels\<close>: it is converted to unsigned for the header field and for the size
  computation, and whenever \<open>rows\<close> and \<open>cols\<close> are non-negative, the output pointers are
  not null, \<open>matrixSize\<close> plus the header size does not wrap around \<open>2 ^ 64\<close>, \<open>matrixSize\<close>
  bytes are readable at \<open>matrixData\<close> and the header methods read back what they wrote,
  both \<^verbatim>\<open>serializeToString\<close> and \<^verbatim>\<open>serializeToBuffer\<close> return \<^verbatim>\<open>true\<close> with the header followed
  by \<open>matrixSize\<close> bytes of the data, whatever the sign of \<open>channels\<close>.
\<close>

theorem raw_encode_sign_checks:
  "(rows_in < 0 \<or> cols_in < 0 \<longrightarrow>
      serializeToString_raw hw st matrixData rows_in cols_in channels_in string = Inl CheckFailed) \<and>
   channels (makeHeaderInformation st rows_in cols_in channels_in) = word_of_int channels_in \<and>
   (header_codec_contract hw hr \<and> 0 \<le> rows_in \<and> 0 \<le> cols_in \<and>
    encoded_matrixSize st rows_in cols_in channels_in + HeaderInformation_size < 2 ^ 64 \<and>
    encoded_matrixSize st rows_in cols_in channels_in \<le> length md \<longrightarrow>
      (\<exists>hb. serializeToString_raw hw st (Some md) rows_in cols_in channels_in (Some s0) =
             Inr (True, hb @ take (encoded_matrixSize st rows_in cols_in channels_in) md) \<and>
           hr (Some (hb @ take (encoded_matrixSize st rows_in cols_in channels_in) md)) 0 =
             Inr (Some (makeHeaderInformation st rows_in cols_in channels_in))) \<and>
      (\<exists>hb hp'. serializeToBuffer_raw hw st hp (Some md) rows_in cols_in channels_in (Some p0) (Some n0) =
             Inr (True, hp', Some (next_addr hp),
                  encoded_matrixSize st rows_in cols_in channels_in + HeaderInformation_size) \<and>
           cells hp' (next_addr hp) =
             Some (hb @ take (encoded_matrixSize st rows_in cols_in channels_in) md) \<and>
           hr (Some (hb @ take (encoded_matrixSize st rows_in cols_in channels_in) md)) 0 =
             Inr (Some (makeHeaderInformation st rows_in cols_in channels_in))))"
proof (intro conjI impI)
  assume "rows_in < 0 \<or> cols_in < 0"
  then show "serializeToString_raw hw st matrixData rows_in cols_in channels_in string = Inl CheckFailed"
    by (auto simp add: serializeToString_raw_def)
next
  show "channels (makeHeaderInformation st rows_in cols_in channels_in) = word_of_int channels_in"
    by (simp add: makeHeaderInformation_def)
next
  assume a: "header_codec_contract hw hr \<and> 0 \<le> rows_in \<and> 0 \<le> cols_in \<and>
    encoded_matrixSize st rows_in cols_in channels_in + HeaderInformation_size < 2 ^ 64 \<and>
    encoded_matrixSize st rows_in cols_in channels_in \<le> length md"
  then show "\<exists>hb. serializeToString_raw hw st (Some md) rows_in cols_in channels_in (Some s0) =
             Inr (True, hb @ take (encoded_matrixSize st rows_in cols_in channels_in) md) \<and>
           hr (Some (hb @ take (encoded_matrixSize st rows_in cols_in channels_in) md)) 0 =
             Inr (Some (makeHeaderInformation st rows_in cols_in channels_in))"
    by (intro serializeToString_raw_returns) simp_all
next
  assume a: "header_codec_contract hw hr \<and> 0 \<le> rows_in \<and> 0 \<le> cols_in \<and>
    encoded_matrixSize st rows_in cols_in channels_in + HeaderInformation_size < 2 ^ 64 \<and>
    encoded_matrixSize st rows_in cols_in channels_in \<le> length md"
  then show "\<exists>hb hp'. serializeToBuffer_raw hw st hp (Some md) rows_in cols_in channels_in (Some p0) (Some n0) =
             Inr (True, hp', Some (next_addr hp),
                  encoded_matrixSize st rows_in cols_in channels_in + HeaderInformation_size) \<and>
           cells hp' (next_addr hp) =
             Some (hb @ take (encoded_matrixSize st rows_in cols_in channels_in) md) \<and>
           hr (Some (hb @ take (encoded_matrixSize st rows_in cols_in channels_in) md)) 0 =
             Inr (Some (makeHeaderInformation st rows_in cols_in channels_in))"
    by (intro serializeToBuffer_raw_returns) simp_all
qed

text \<open>
  The amended claim at \<open>rows = -1\<close> and at \<open>cols = -1\<close>, which are fatal for the string, and at
  three rows, no column and \<open>channels = -2\<close>: both encoders return \<^verbatim>\<open>true\<close> with the 16 header
  bytes, whose channels field is \<open>0xFFFFFFFE\<close>.
\<close>

theorem raw_encode_sign_checks_witness:
  "serializeToString_raw HeaderInformation_serializeToBuffer int32_traits (Some []) (- 1) 0 1 (Some []) =
     Inl CheckFailed \<and>
   serializeToString_raw HeaderInformation_serializeToBuffer int32_traits (Some []) 0 (- 1) 1 (Some []) =
     Inl CheckFailed \<and>
   channels (makeHeaderInformation int32_traits 3 0 (- 2)) = 4294967294 \<and>
   header_codec_contract HeaderInformation_serializeToBuffer HeaderInformation_deSerializeFromBuffer \<and>
   encoded_matrixSize int32_traits 3 0 (- 2) = 0 \<and>
   serializeToString_raw HeaderInformation_serializeToBuffer int32_traits (Some []) 3 0 (- 2) (Some []) =
     Inr (True, [3, 0, 0, 0, 0, 0, 0, 0, 4, 0, 0, 0, 254, 255, 255, 255]) \<and>
   serializeToBuffer_raw HeaderInformation_serializeToBuffer int32_traits empty_heap (Some []) 3 0 (- 2)
     (Some None) (Some 0) =
     Inr (True,
          \<lparr>cells = (cells empty_heap)(0 \<mapsto> [3, 0, 0, 0, 0, 0, 0, 0, 4, 0, 0, 0, 254, 255, 255, 255]),
           next_addr = 1\<rparr>,
          Some 0, 16) \<and>
   (\<exists>hb. serializeToString_raw HeaderInformation_serializeToBuffer int32_traits (Some []) 3 0 (- 2)
          (Some []) = Inr (True, hb @ take 0 []) \<and>
        HeaderInformation_deSerializeFromBuffer (Some (hb @ take 0 [])) 0 =
          Inr (Some (makeHeaderInformation int32_traits 3 0 (- 2)))) \<and>
   (\<exists>hb hp'. serializeToBuffer_raw HeaderInformation_serializeToBuffer int32_traits empty_heap (Some [])
          3 0 (- 2) (Some None) (Some 0) =
          Inr (True, hp', Some (next_addr empty_heap), 0 + HeaderInformation_size) \<and>
        cells hp' (next_addr empty_heap) = Some (hb @ take 0 []) \<and>
        HeaderInformation_deSerializeFromBuffer (Some (hb @ take 0 [])) 0 =
          Inr (Some (makeHeaderInformation int32_traits 3 0 (- 2))))"
proof -
  note t = raw_encode_sign_checks [where hw = HeaderInformation_serializeToBuffer
      and hr = HeaderInformation_deSerializeFromBuffer and st = int32_traits
      and matrixData = "Some []" and string = "Some []" and hp = empty_heap and ?p0.0 = None
      and ?n0.0 = 0 and md = "[]" and ?s0.0 = "[]"]
  have 1: "serializeToString_raw HeaderInformation_serializeToBuffer int32_traits (Some []) (- 1) 0 1 (Some []) =
     Inl CheckFailed"
    using t [where rows_in = "- 1" and cols_in = 0 and channels_in = 1] by simp
  have 2: "serializeToString_raw HeaderInformation_serializeToBuffer int32_traits (Some []) 0 (- 1) 1 (Some []) =
     Inl CheckFailed"
    using t [where rows_in = 0 and cols_in = "- 1" and channels_in = 1] by simp
  have k: "encoded_matrixSize int32_traits 3 0 (- 2) = 0"
    by (simp add: encoded_matrixSize_def size_t_of_int_def)
  have c: "header_codec_contract HeaderInformation_serializeToBuffer HeaderInformation_deSerializeFromBuffer"
    by (rule HeaderInformation_codec_contract)
  have h: "header_codec_contract HeaderInformation_serializeToBuffer HeaderInformation_deSerializeFromBuffer \<and>
      (0 :: int) \<le> 3 \<and> (0 :: int) \<le> 0 \<and>
      encoded_matrixSize int32_traits 3 0 (- 2) + HeaderInformation_size < 2 ^ 64 \<and>
      encoded_matrixSize int32_traits 3 0 (- 2) \<le> length ([] :: byte list)"
    using c by (simp add: k HeaderInformation_size_def)
  note u = t [where rows_in = 3 and cols_in = 0 and channels_in = "- 2"]
  have 3: "channels (makeHeaderInformation int32_traits 3 0 (- 2)) = 4294967294"
    using u by simp
  from u h have 4: "\<exists>hb. serializeToString_raw HeaderInformation_serializeToBuffer int32_traits (Some []) 3 0 (- 2)
          (Some []) = Inr (True, hb @ take (encoded_matrixSize int32_traits 3 0 (- 2)) []) \<and>
        HeaderInformation_deSerializeFromBuffer
          (Some (hb @ take (encoded_matrixSize int32_traits 3 0 (- 2)) [])) 0 =
          Inr (Some (makeHeaderInformation int32_traits 3 0 (- 2)))"
    by blast
  from u h have 5: "\<exists>hb hp'. serializeToBuffer_raw HeaderInformation_serializeToBuffer int32_traits empty_heap
          (Some []) 3 0 (- 2) (Some None) (Some 0) =
          Inr (True, hp', Some (next_addr empty_heap),
               encoded_matrixSize int32_traits 3 0 (- 2) + HeaderInformation_size) \<and>
        cells hp' (next_addr empty_heap) =
          Some (hb @ take (encoded_matrixSize int32_traits 3 0 (- 2)) []) \<and>
        HeaderInformation_deSerializeFromBuffer
          (Some (hb @ take (encoded_matrixSize int32_traits 3 0 (- 2)) [])) 0 =
          Inr (Some (makeHeaderInformation int32_traits 3 0 (- 2)))"
    by blast
  have 6: "serializeToString_raw HeaderInformation_serializeToBuffer int32_traits (Some []) 3 0 (- 2) (Some []) =
     Inr (True, [3, 0, 0, 0, 0, 0, 0, 0, 4, 0, 0, 0, 254, 255, 255, 255])"
    by (simp add: serializeToString_raw_def makeHeaderInformation_def int32_traits_def
        size_t_of_int_def size_t_of_nat_def HeaderInformation_size_def string_resize_def
        HeaderInformation_serializeToBuffer_def header_bytes_def memcpy_def le32_minus_two
        le32_def [of 0] le32_def [of 3] le32_def [of 4])
  have 7: "serializeToBuffer_raw HeaderInformation_serializeToBuffer int32_traits empty_heap (Some []) 3 0 (- 2)
     (Some None) (Some 0) =
     Inr (True,
          \<lparr>cells = (cells empty_heap)(0 \<mapsto> [3, 0, 0, 0, 0, 0, 0, 0, 4, 0, 0, 0, 254, 255, 255, 255]),
           next_addr = 1\<rparr>,
          Some 0, 16)"
    by (simp add: serializeToBuffer_raw_def makeHeaderInformation_def int32_traits_def
        size_t_of_int_def size_t_of_nat_def HeaderInformation_size_def new_chars_def fresh_chars_def
        store_chars_def empty_heap_def HeaderInformation_serializeToBuffer_def header_bytes_def
        memcpy_def le32_minus_two le32_def [of 0] le32_def [of 3] le32_def [of 4])
  from 1 2 3 c k 6 7 4 [unfolded k] 5 [unfolded k] show ?thesis
    by (intro conjI)
qed

text \<open>
  Claim C3 as stated fails: \<^verbatim>\<open>serializeToBuffer\<close> with \<open>channels = -1\<close> (and no rows and
  columns) returns \<^verbatim>\<open>true\<close> with a 16-byte buffer whose channels field is \<open>0xFFFFFFFF\<close>.
\<close>

theorem raw_encode_sign_checks_counterexample:
  "serializeToBuffer_raw HeaderInformation_serializeToBuffer int32_traits empty_heap (Some []) 0 0 (- 1)
     (Some None) (Some 0) =
   Inr (True,
        \<lparr>cells = (cells empty_heap)(0 \<mapsto> [0, 0, 0, 0, 0, 0, 0, 0, 4, 0, 0, 0, 255, 255, 255, 255]),
         next_addr = 1\<rparr>,
        Some 0, 16)"
  by (simp add: serializeToBuffer_raw_def makeHeaderInformation_def int32_traits_def
      size_t_of_int_def size_t_of_nat_def HeaderInformation_size_def new_chars_def fresh_chars_def
      store_chars_def empty_heap_def HeaderInformation_serializeToBuffer_def header_bytes_def
      memcpy_def le32_minus_one le32_def [of 0] le32_def [of 4])

subsection \<open>Failure of the header write\<close>

text \<open>
  Claim C4. In \<^verbatim>\<open>serializeToBuffer\<close> from a raw pointer, if the header writer returns
  \<^verbatim>\<open>false\<close> on the array just allocated, the call returns \<^verbatim>\<open>false\<close>, the caller's
  \<^verbatim>\<open>*buffer\<close> is null, and the array is released: the heap holds the arrays it held
  before the call and nothing at the address of the new one.
\<close>

theorem header_write_failure_releases_buffer:
  assumes "hw (makeHeaderInformation st rows_in cols_in channels_in)
             (fresh_chars (encoded_totalSize st rows_in cols_in channels_in)) 0 = Inr (False, b)"
  shows "\<exists>hp'. serializeToBuffer_raw hw st hp matrixData rows_in cols_in channels_in (Some p0) (Some n0) =
           Inr (False, hp', None, encoded_totalSize st rows_in cols_in channels_in) \<and>
         cells hp' = (cells hp)(next_addr hp := None)"
  using assms
  by (simp add: serializeToBuffer_raw_def Let_def new_chars_def delete_chars_def
      encoded_totalSize_def)

text \<open>
  The claim with a writer that fails, on an empty heap.
\<close>

theorem header_write_failure_releases_buffer_witness:
  "encoded_totalSize int32_traits 1 1 1 = 20 \<and>
   failing_writer (makeHeaderInformation int32_traits 1 1 1) (fresh_chars 20) 0 =
     Inr (False, fresh_chars 20) \<and>
   (\<exists>hp'. serializeToBuffer_raw failing_writer int32_traits empty_heap (Some [5, 0, 0, 0]) 1 1 1
        (Some None) (Some 0) = Inr (False, hp', None, 20) \<and>
      cells hp' = cells empty_heap)"
proof -
  have n: "encoded_totalSize int32_traits 1 1 1 = 20"
    by (simp add: encoded_totalSize_def int32_traits_def size_t_of_nat_def size_t_of_int_def
        HeaderInformation_size_def)
  have a: "failing_writer (makeHeaderInformation int32_traits 1 1 1) (fresh_chars 20) 0 =
      Inr (False, fresh_chars 20)"
    by (simp add: failing_writer_def)
  have e: "(cells empty_heap)(next_addr empty_heap := None) = cells empty_heap"
    by (simp add: empty_heap_def)
  note t = header_write_failure_releases_buffer
      [where hw = failing_writer and st = int32_traits and rows_in = 1 and cols_in = 1
         and channels_in = 1 and b = "fresh_chars 20" and hp = empty_heap
         and matrixData = "Some [5, 0, 0, 0]" and ?p0.0 = None and ?n0.0 = 0, unfolded n e, OF a]
  from n a t show ?thesis
    by (intro conjI)
qed

subsection \<open>Validation of the decoded header\<close>

lemma word_of_int_eq_uint_iff:
  assumes "0 \<le> k" and "k < 2 ^ 32"
  shows "(w :: 32 word) = word_of_int k \<longleftrightarrow> uint w = k"
proof
  assume "w = word_of_int k"
  then show "uint w = k"
    using assms by (simp add: uint_word_of_int take_bit_int_eq_self)
next
  assume "uint w = k"
  then show "w = word_of_int k"
    by (metis word_of_int_uint)
qed

text \<open>
  Claim C5. When the header has been read, a decode into a matrix is a failed \<^verbatim>\<open>CHECK\<close>
  (not a \<^verbatim>\<open>false\<close> return) as soon as a statically fixed \<^verbatim>\<open>ROWS\<close> or \<^verbatim>\<open>COLS\<close> differs
  from the header's rows or cols, the header's depth differs from the type tag of
  \<^verbatim>\<open>SCALAR\<close>, or the header's channels differ from 1.
\<close>

theorem decode_validation_is_fatal:
  assumes rd: "hr buffer 0 = Inr (Some h)"
    and R: "ROWS = Dynamic \<or> (0 \<le> ROWS \<and> ROWS < 2 ^ 31)"
    and C: "COLS = Dynamic \<or> (0 \<le> COLS \<and> COLS < 2 ^ 31)"
    and d: "0 \<le> cv_depth st" "cv_depth st < 2 ^ 31"
    and bad: "(ROWS \<noteq> Dynamic \<and> uint (rows h) \<noteq> ROWS) \<or> (COLS \<noteq> Dynamic \<and> uint (cols h) \<noteq> COLS) \<or>
              uint (depth h) \<noteq> cv_depth st \<or> uint (channels h) \<noteq> 1"
  shows "deSerializeFromBuffer hr st ROWS COLS buffer size_in (Some m) = Inl CheckFailed"
proof -
  have r: "rows h = word_of_int ROWS \<longleftrightarrow> uint (rows h) = ROWS" if "ROWS \<noteq> Dynamic"
    using R that by (intro word_of_int_eq_uint_iff) auto
  have c: "cols h = word_of_int COLS \<longleftrightarrow> uint (cols h) = COLS" if "COLS \<noteq> Dynamic"
    using C that by (intro word_of_int_eq_uint_iff) auto
  have dp: "depth h = word_of_int (cv_depth st) \<longleftrightarrow> uint (depth h) = cv_depth st"
    using d by (intro word_of_int_eq_uint_iff) auto
  have ch: "channels h = 1 \<longleftrightarrow> uint (channels h) = 1"
    using word_of_int_eq_uint_iff [of 1 "channels h"] by simp
  from bad have "(ROWS \<noteq> Dynamic \<and> rows h \<noteq> word_of_int ROWS) \<or>
      (COLS \<noteq> Dynamic \<and> cols h \<noteq> word_of_int COLS) \<or>
      depth h \<noteq> word_of_int (cv_depth st) \<or> channels h \<noteq> 1"
    using r c dp ch by blast
  then show ?thesis
    using rd by (auto simp add: deSerializeFromBuffer_def)
qed

lemma example_read_header_channels3:
  "HeaderInformation_deSerializeFromBuffer
     (Some [1, 0, 0, 0, 1, 0, 0, 0, 4, 0, 0, 0, 3, 0, 0, 0, 9, 0, 0, 0, 9, 0, 0, 0, 9, 0, 0, 0]) 0 =
   Inr (Some \<lparr>rows = 1, cols = 1, depth = 4, channels = 3\<rparr>)"
  by (simp add: HeaderInformation_deSerializeFromBuffer_def HeaderInformation_size_def of_le32_def)

text \<open>
  The claim at a payload with \<open>channels = 3\<close>, decoded into a dynamic matrix of \<^verbatim>\<open>int\<close>.
\<close>

theorem decode_validation_is_fatal_witness:
  "HeaderInformation_deSerializeFromBuffer
     (Some [1, 0, 0, 0, 1, 0, 0, 0, 4, 0, 0, 0, 3, 0, 0, 0, 9, 0, 0, 0, 9, 0, 0, 0, 9, 0, 0, 0]) 0 =
     Inr (Some \<lparr>rows = 1, cols = 1, depth = 4, channels = 3\<rparr>) \<and>
   uint (channels \<lparr>rows = 1, cols = 1, depth = 4, channels = 3\<rparr>) \<noteq> 1 \<and>
   deSerializeFromBuffer HeaderInformation_deSerializeFromBuffer int32_traits Dynamic Dynamic
     (Some [1, 0, 0, 0, 1, 0, 0, 0, 4, 0, 0, 0, 3, 0, 0, 0, 9, 0, 0, 0, 9, 0, 0, 0, 9, 0, 0, 0]) 28
     (Some \<lparr>mrows = 0, mcols = 0, mdata = []\<rparr>) = Inl CheckFailed"
proof -
  let ?h = "\<lparr>rows = 1, cols = 1, depth = 4, channels = 3\<rparr>"
  have c: "uint (channels ?h) \<noteq> 1"
    by simp
  have d: "0 \<le> cv_depth int32_traits" "cv_depth int32_traits < 2 ^ 31"
    by (simp_all add: int32_traits_def)
  have bad: "(Dynamic \<noteq> Dynamic \<and> uint (rows ?h) \<noteq> Dynamic) \<or>
      (Dynamic \<noteq> Dynamic \<and> uint (cols ?h) \<noteq> Dynamic) \<or>
      uint (depth ?h) \<noteq> cv_depth int32_traits \<or> uint (channels ?h) \<noteq> 1"
    by simp
  have "deSerializeFromBuffer HeaderInformation_deSerializeFromBuffer int32_traits Dynamic Dynamic
     (Some [1, 0, 0, 0, 1, 0, 0, 0, 4, 0, 0, 0, 3, 0, 0, 0, 9, 0, 0, 0, 9, 0, 0, 0, 9, 0, 0, 0]) 28
     (Some \<lparr>mrows = 0, mcols = 0, mdata = []\<rparr>) = Inl CheckFailed"
    using example_read_header_channels3 _ _ d bad
    by (rule decode_validation_is_fatal) simp_all
  with example_read_header_channels3 c show ?thesis
    by (intro conjI)
qed

subsection \<open>Length checks of the decoder\<close>

lemma deSerializeFromBuffer_trueD:
  assumes "deSerializeFromBuffer hr st ROWS COLS buffer size_in (Some m) = Inr (True, m')"
  obtains h m1 b where "HeaderInformation_size \<le> size_in" and "hr buffer 0 = Inr (Some h)"
    and "header_matches st ROWS COLS h" and "resize_destination st ROWS COLS h m = Inr m1"
    and "size_in = expected_size st m1" and "buffer = Some b"
    and "memcpy (mdata m1) 0 b HeaderInformation_size (size_t_of_nat (sizeof st * mrows m1 * mcols m1)) =
           Some (mdata m')"
    and "m' = m1\<lparr>mdata := mdata m'\<rparr>"
  using assms
  by (auto simp add: deSerializeFromBuffer_def Let_def header_matches_def expected_size_def
      split: if_splits sum.splits option.splits)

lemma deSerializeFromBuffer_size_mismatch:
  assumes "HeaderInformation_size \<le> size_in" and "hr buffer 0 = Inr (Some h)"
    and "header_matches st ROWS COLS h" and "resize_destination st ROWS COLS h m = Inr m1"
    and "size_in \<noteq> expected_size st m1"
  shows "deSerializeFromBuffer hr st ROWS COLS buffer size_in (Some m) = Inl CheckFailed"
  using assms
  by (auto simp add: deSerializeFromBuffer_def Let_def header_matches_def expected_size_def)

lemma resize_destination_bound:
  assumes "wf_Matrix st ROWS COLS m" and "resize_destination st ROWS COLS h m = Inr m1"
  shows "sizeof st * mrows m1 * mcols m1 < 2 ^ 64"
  using assms
  by (auto simp add: resize_destination_def Matrix_resize_def wf_Matrix_def split: if_splits)

lemma resize_destination_dims:
  assumes "resize_destination st ROWS COLS h m = Inr m1"
  shows "mrows m1 = (if ROWS = Dynamic then unat (rows h) else mrows m)"
    and "mcols m1 = (if COLS = Dynamic then unat (cols h) else mcols m)"
  using assms
  by (auto simp add: resize_destination_def Matrix_resize_def split: if_splits)

lemma expected_size_exact:
  assumes "sizeof st * mrows m1 * mcols m1 < 2 ^ 64" and "HeaderInformation_size \<le> n"
    and "n \<noteq> HeaderInformation_size + sizeof st * mrows m1 * mcols m1"
  shows "n \<noteq> expected_size st m1"
proof -
  let ?k = "sizeof st * mrows m1 * mcols m1"
  have e: "expected_size st m1 = (?k + 16) mod 2 ^ 64"
    using assms(1) by (simp add: expected_size_def size_t_of_nat_def HeaderInformation_size_def)
  show ?thesis
  proof (cases "?k + 16 < 2 ^ 64")
    case True
    then show ?thesis
      using assms(3) by (simp add: e HeaderInformation_size_def)
  next
    case False
    then have "(?k + 16) mod 2 ^ 64 = ?k + 16 - 2 ^ 64"
      using assms(1) by (simp add: mod_if)
    then have "expected_size st m1 < 16"
      using assms(1) by (simp add: e)
    then show ?thesis
      using assms(2) by (simp add: HeaderInformation_size_def)
  qed
qed

text \<open>
  Claim C6. A decode into a matrix checks the input length twice, each time fatally: a
  length below the header size is a failed \<^verbatim>\<open>CHECK\<close>; and once the header is read and
  accepted and the destination resized to \<open>m1\<close>, a length other than the header size plus
  \<open>rows * cols * sizeof(SCALAR)\<close> of \<open>m1\<close> is a failed \<^verbatim>\<open>CHECK\<close>. So a string that decodes
  successfully no longer does with its last byte cut off: the call is a failed \<^verbatim>\<open>CHECK\<close>
  (for a reader that looks at the header bytes only).
\<close>

theorem decode_length_checks:
  assumes wf: "wf_Matrix st ROWS COLS m"
  shows "(size_in < HeaderInformation_size \<longrightarrow>
            deSerializeFromBuffer hr st ROWS COLS buffer size_in (Some m) = Inl CheckFailed) \<and>
         (hr buffer 0 = Inr (Some h) \<and>
          header_matches st ROWS COLS h \<and> resize_destination st ROWS COLS h m = Inr m1 \<and>
          size_in \<noteq> HeaderInformation_size + sizeof st * mrows m1 * mcols m1 \<longrightarrow>
            deSerializeFromBuffer hr st ROWS COLS buffer size_in (Some m) = Inl CheckFailed) \<and>
         (header_reader_local hr \<and>
          deSerializeFromString hr st ROWS COLS string (Some m) = Inr (True, m') \<longrightarrow>
            deSerializeFromString hr st ROWS COLS (butlast string) (Some m) = Inl CheckFailed)"
proof (intro conjI impI)
  assume "size_in < HeaderInformation_size"
  then show "deSerializeFromBuffer hr st ROWS COLS buffer size_in (Some m) = Inl CheckFailed"
    by (simp add: deSerializeFromBuffer_def)
next
  assume a: "hr buffer 0 = Inr (Some h) \<and>
          header_matches st ROWS COLS h \<and> resize_destination st ROWS COLS h m = Inr m1 \<and>
          size_in \<noteq> HeaderInformation_size + sizeof st * mrows m1 * mcols m1"
  show "deSerializeFromBuffer hr st ROWS COLS buffer size_in (Some m) = Inl CheckFailed"
  proof (cases "size_in < HeaderInformation_size")
    case True
    then show ?thesis
      by (simp add: deSerializeFromBuffer_def)
  next
    case False
    then have n: "HeaderInformation_size \<le> size_in"
      by simp
    have "sizeof st * mrows m1 * mcols m1 < 2 ^ 64"
      using a resize_destination_bound [OF wf] by blast
    with a n have "size_in \<noteq> expected_size st m1"
      by (intro expected_size_exact) simp_all
    with a n show ?thesis
      by (intro deSerializeFromBuffer_size_mismatch [where h = h and ?m1.0 = m1]) simp_all
  qed
next
  assume a: "header_reader_local hr \<and>
          deSerializeFromString hr st ROWS COLS string (Some m) = Inr (True, m')"
  then have "deSerializeFromBuffer hr st ROWS COLS (Some string) (length string) (Some m) = Inr (True, m')"
    by (simp add: deSerializeFromString_def)
  then obtain h m1 where n: "HeaderInformation_size \<le> length string"
    and rd: "hr (Some string) 0 = Inr (Some h)"
    and hm: "header_matches st ROWS COLS h" and rs: "resize_destination st ROWS COLS h m = Inr m1"
    and sz: "length string = expected_size st m1"
    by (rule deSerializeFromBuffer_trueD)
  let ?t = "butlast string"
  have "deSerializeFromBuffer hr st ROWS COLS (Some ?t) (length ?t) (Some m) = Inl CheckFailed"
  proof (cases "length string = HeaderInformation_size")
    case True
    then have "length ?t < HeaderInformation_size"
      by (simp add: HeaderInformation_size_def)
    then show ?thesis
      by (simp add: deSerializeFromBuffer_def)
  next
    case False
    with n have lt: "HeaderInformation_size \<le> length ?t"
      by simp
    then have "take HeaderInformation_size ?t = take HeaderInformation_size string"
      by (simp add: butlast_conv_take)
    then have "hr (Some ?t) 0 = Inr (Some h)"
      using a rd unfolding header_reader_local_def by metis
    moreover have "length ?t \<noteq> expected_size st m1"
      using sz n by (simp add: HeaderInformation_size_def)
    ultimately show ?thesis
      using lt hm rs by (intro deSerializeFromBuffer_size_mismatch [where h = h and ?m1.0 = m1])
  qed
  then show "deSerializeFromString hr st ROWS COLS (butlast string) (Some m) = Inl CheckFailed"
    by (simp add: deSerializeFromString_def)
qed

lemma example_deSerialize_5x2:
  "deSerializeFromBuffer HeaderInformation_deSerializeFromBuffer uint8_traits Dynamic Dynamic
     (Some [5, 0, 0, 0, 2, 0, 0, 0, 0, 0, 0, 0, 1, 0, 0, 0, 1, 2, 3, 4, 5, 6, 7, 8, 9, 10]) 26
     (Some \<lparr>mrows = 0, mcols = 0, mdata = []\<rparr>) =
   Inr (True, \<lparr>mrows = 5, mcols = 2, mdata = [1, 2, 3, 4, 5, 6, 7, 8, 9, 10]\<rparr>)"
  by (simp add: deSerializeFromBuffer_def HeaderInformation_size_def
      HeaderInformation_deSerializeFromBuffer_def of_le32_def Dynamic_def uint8_traits_def
      resize_destination_def Matrix_resize_def size_t_of_nat_def memcpy_def)

lemma HeaderInformation_reader_local: "header_reader_local HeaderInformation_deSerializeFromBuffer"
  unfolding header_reader_local_def
proof (intro allI impI)
  fix b b' :: "byte list"
  assume t: "take HeaderInformation_size b = take HeaderInformation_size b'"
  have "length (take 16 b) = length (take 16 b')"
    using t by (simp add: HeaderInformation_size_def)
  then have l: "min (length b) 16 = min (length b') 16"
    by simp
  have "take 4 (drop k b) = take 4 (drop k b')" if "k + 4 \<le> 16" for k
  proof -
    have "take 4 (drop k b) = take 4 (drop k (take 16 b))"
      using that by (simp add: drop_take)
    also have "\<dots> = take 4 (drop k (take 16 b'))"
      using t by (simp add: HeaderInformation_size_def)
    also have "\<dots> = take 4 (drop k b')"
      using that by (simp add: drop_take)
    finally show ?thesis .
  qed
  from this [of 0] this [of 4] this [of 8] this [of 12] l
  show "HeaderInformation_deSerializeFromBuffer (Some b) 0 =
        HeaderInformation_deSerializeFromBuffer (Some b') 0"
    by (auto simp add: HeaderInformation_deSerializeFromBuffer_def HeaderInformation_size_def)
qed

lemma example_deSerializeFromString_5x2:
  "deSerializeFromString HeaderInformation_deSerializeFromBuffer uint8_traits Dynamic Dynamic
     [5, 0, 0, 0, 2, 0, 0, 0, 0, 0, 0, 0, 1, 0, 0, 0, 1, 2, 3, 4, 5, 6, 7, 8, 9, 10]
     (Some \<lparr>mrows = 0, mcols = 0, mdata = []\<rparr>) =
   Inr (True, \<lparr>mrows = 5, mcols = 2, mdata = [1, 2, 3, 4, 5, 6, 7, 8, 9, 10]\<rparr>)"
proof -
  have l: "length [5, 0, 0, 0, 2, 0, 0, 0, 0, 0, 0, 0, 1, 0, 0, 0, 1, 2, 3, 4, 5, 6, 7, 8, 9, 10 :: byte] = 26"
    by simp
  show ?thesis
    unfolding deSerializeFromString_def option.case l by (rule example_deSerialize_5x2)
qed

lemma example_read_header_5x2:
  "HeaderInformation_deSerializeFromBuffer
     (Some [5, 0, 0, 0, 2, 0, 0, 0, 0, 0, 0, 0, 1, 0, 0, 0, 1, 2, 3, 4, 5, 6, 7, 8, 9, 10]) 0 =
   Inr (Some \<lparr>rows = 5, cols = 2, depth = 0, channels = 1\<rparr>)"
  by (simp add: HeaderInformation_deSerializeFromBuffer_def HeaderInformation_size_def of_le32_def)

lemma example_resize_5x2:
  "resize_destination uint8_traits Dynamic Dynamic \<lparr>rows = 5, cols = 2, depth = 0, channels = 1\<rparr>
     \<lparr>mrows = 0, mcols = 0, mdata = []\<rparr> =
   Inr \<lparr>mrows = 5, mcols = 2, mdata = replicate 10 0\<rparr>"
  by (simp add: resize_destination_def Matrix_resize_def uint8_traits_def)

text \<open>
  The claim at a 5 by 2 payload of \<^verbatim>\<open>unsigned char\<close> (26 bytes): with length 15, with
  length 27, and with the last byte cut off.
\<close>

theorem decode_length_checks_witness:
  "wf_Matrix uint8_traits Dynamic Dynamic \<lparr>mrows = 0, mcols = 0, mdata = []\<rparr> \<and>
   deSerializeFromBuffer HeaderInformation_deSerializeFromBuffer uint8_traits Dynamic Dynamic
     (Some [5, 0, 0, 0, 2, 0, 0, 0, 0, 0, 0, 0, 1, 0, 0, 0, 1, 2, 3, 4, 5, 6, 7, 8, 9, 10]) 15
     (Some \<lparr>mrows = 0, mcols = 0, mdata = []\<rparr>) = Inl CheckFailed \<and>
   deSerializeFromBuffer HeaderInformation_deSerializeFromBuffer uint8_traits Dynamic Dynamic
     (Some [5, 0, 0, 0, 2, 0, 0, 0, 0, 0, 0, 0, 1, 0, 0, 0, 1, 2, 3, 4, 5, 6, 7, 8, 9, 10]) 27
     (Some \<lparr>mrows = 0, mcols = 0, mdata = []\<rparr>) = Inl CheckFailed \<and>
   header_reader_local HeaderInformation_deSerializeFromBuffer \<and>
   deSerializeFromString HeaderInformation_deSerializeFromBuffer uint8_traits Dynamic Dynamic
     [5, 0, 0, 0, 2, 0, 0, 0, 0, 0, 0, 0, 1, 0, 0, 0, 1, 2, 3, 4, 5, 6, 7, 8, 9, 10]
     (Some \<lparr>mrows = 0, mcols = 0, mdata = []\<rparr>) =
     Inr (True, \<lparr>mrows = 5, mcols = 2, mdata = [1, 2, 3, 4, 5, 6, 7, 8, 9, 10]\<rparr>) \<and>
   deSerializeFromString HeaderInformation_deSerializeFromBuffer uint8_traits Dynamic Dynamic
     [5, 0, 0, 0, 2, 0, 0, 0, 0, 0, 0, 0, 1, 0, 0, 0, 1, 2, 3, 4, 5, 6, 7, 8, 9]
     (Some \<lparr>mrows = 0, mcols = 0, mdata = []\<rparr>) = Inl CheckFailed"
proof -
  let ?s = "[5, 0, 0, 0, 2, 0, 0, 0, 0, 0, 0, 0, 1, 0, 0, 0, 1, 2, 3, 4, 5, 6, 7, 8, 9, 10] :: byte list"
  let ?D = "\<lparr>mrows = 0, mcols = 0, mdata = [] :: byte list\<rparr>"
  let ?h = "\<lparr>rows = 5, cols = 2, depth = 0, channels = 1\<rparr>"
  let ?m1 = "\<lparr>mrows = 5, mcols = 2, mdata = replicate 10 (0 :: byte)\<rparr>"
  let ?M = "\<lparr>mrows = 5, mcols = 2, mdata = [1, 2, 3, 4, 5, 6, 7, 8, 9, 10 :: byte]\<rparr>"
  have wf: "wf_Matrix uint8_traits Dynamic Dynamic ?D"
    by (simp add: wf_Matrix_def)
  note t = decode_length_checks [OF wf, where hr = HeaderInformation_deSerializeFromBuffer
      and buffer = "Some ?s" and h = ?h and ?m1.0 = ?m1 and string = ?s and m' = ?M]
  have short: "(15 :: nat) < HeaderInformation_size"
    by (simp add: HeaderInformation_size_def)
  have long: "HeaderInformation_deSerializeFromBuffer (Some ?s) 0 = Inr (Some ?h) \<and>
      header_matches uint8_traits Dynamic Dynamic ?h \<and>
      resize_destination uint8_traits Dynamic Dynamic ?h ?D = Inr ?m1 \<and>
      27 \<noteq> HeaderInformation_size + sizeof uint8_traits * mrows ?m1 * mcols ?m1"
    using example_read_header_5x2 example_resize_5x2
    by (simp add: HeaderInformation_size_def header_matches_def uint8_traits_def)
  have cut: "butlast ?s = [5, 0, 0, 0, 2, 0, 0, 0, 0, 0, 0, 0, 1, 0, 0, 0, 1, 2, 3, 4, 5, 6, 7, 8, 9]"
    by simp
  from t [of 15] short have 1: "deSerializeFromBuffer HeaderInformation_deSerializeFromBuffer uint8_traits
      Dynamic Dynamic (Some ?s) 15 (Some ?D) = Inl CheckFailed"
    by blast
  from t [of 27] long have 2: "deSerializeFromBuffer HeaderInformation_deSerializeFromBuffer uint8_traits
      Dynamic Dynamic (Some ?s) 27 (Some ?D) = Inl CheckFailed"
    by blast
  from t [of 0] HeaderInformation_reader_local example_deSerializeFromString_5x2
  have 3: "deSerializeFromString HeaderInformation_deSerializeFromBuffer uint8_traits Dynamic Dynamic
      (butlast ?s) (Some ?D) = Inl CheckFailed"
    by blast
  show ?thesis
    using wf 1 2 HeaderInformation_reader_local example_deSerializeFromString_5x2 3 [unfolded cut]
    by (intro conjI)
qed

subsection \<open>Resizing of the destination\<close>

text \<open>
  Claim C7. A decode that returns \<^verbatim>\<open>true\<close> has resized the destination before the copy:
  each dynamic dimension is the header's, each fixed dimension is the destination's own,
  and the payload bytes are copied into the resized matrix, whose dimensions stay.
\<close>

theorem decode_resizes_dynamic_dimensions:
  assumes "deSerializeFromBuffer hr st ROWS COLS buffer size_in (Some m) = Inr (True, m')"
  shows "\<exists>h m1 b. hr buffer 0 = Inr (Some h) \<and> buffer = Some b \<and>
           resize_destination st ROWS COLS h m = Inr m1 \<and>
           mrows m1 = (if ROWS = Dynamic then unat (rows h) else mrows m) \<and>
           mcols m1 = (if COLS = Dynamic then unat (cols h) else mcols m) \<and>
           memcpy (mdata m1) 0 b HeaderInformation_size (size_t_of_nat (sizeof st * mrows m1 * mcols m1)) =
             Some (mdata m') \<and>
           mrows m' = mrows m1 \<and> mcols m' = mcols m1"
proof -
  from assms obtain h m1 b where rd: "hr buffer 0 = Inr (Some h)"
    and rs: "resize_destination st ROWS COLS h m = Inr m1" and b: "buffer = Some b"
    and cp: "memcpy (mdata m1) 0 b HeaderInformation_size (size_t_of_nat (sizeof st * mrows m1 * mcols m1)) =
           Some (mdata m')"
    and m': "m' = m1\<lparr>mdata := mdata m'\<rparr>"
    by (rule deSerializeFromBuffer_trueD)
  have "mrows m' = mrows m1" and "mcols m' = mcols m1"
    by (subst m', simp)+
  with rd rs b cp resize_destination_dims [OF rs] show ?thesis
    by blast
qed

text \<open>
  The claim at a header with \<open>rows = 5\<close> and \<open>cols = 2\<close>, decoded into an empty matrix with
  two dynamic dimensions: the destination is resized to 5 by 2 and then filled.
\<close>

theorem decode_resizes_dynamic_dimensions_witness:
  "deSerializeFromBuffer HeaderInformation_deSerializeFromBuffer uint8_traits Dynamic Dynamic
     (Some [5, 0, 0, 0, 2, 0, 0, 0, 0, 0, 0, 0, 1, 0, 0, 0, 1, 2, 3, 4, 5, 6, 7, 8, 9, 10]) 26
     (Some \<lparr>mrows = 0, mcols = 0, mdata = []\<rparr>) =
     Inr (True, \<lparr>mrows = 5, mcols = 2, mdata = [1, 2, 3, 4, 5, 6, 7, 8, 9, 10]\<rparr>) \<and>
   resize_destination uint8_traits Dynamic Dynamic \<lparr>rows = 5, cols = 2, depth = 0, channels = 1\<rparr>
     \<lparr>mrows = 0, mcols = 0, mdata = []\<rparr> =
     Inr \<lparr>mrows = 5, mcols = 2, mdata = replicate 10 0\<rparr> \<and>
   memcpy (replicate 10 0) 0
     [5, 0, 0, 0, 2, 0, 0, 0, 0, 0, 0, 0, 1, 0, 0, 0, 1, 2, 3, 4, 5, 6, 7, 8, 9, 10]
     HeaderInformation_size (size_t_of_nat (sizeof uint8_traits * 5 * 2)) =
     Some [1, 2, 3, 4, 5, 6, 7, 8, 9, 10]"
proof -
  let ?s = "[5, 0, 0, 0, 2, 0, 0, 0, 0, 0, 0, 0, 1, 0, 0, 0, 1, 2, 3, 4, 5, 6, 7, 8, 9, 10] :: byte list"
  let ?D = "\<lparr>mrows = 0, mcols = 0, mdata = [] :: byte list\<rparr>"
  let ?M = "\<lparr>mrows = 5, mcols = 2, mdata = [1, 2, 3, 4, 5, 6, 7, 8, 9, 10 :: byte]\<rparr>"
  from decode_resizes_dynamic_dimensions [OF example_deSerialize_5x2]
  obtain h m1 b where rd: "HeaderInformation_deSerializeFromBuffer (Some ?s) 0 = Inr (Some h)"
    and b: "Some ?s = Some b"
    and rs: "resize_destination uint8_traits Dynamic Dynamic h ?D = Inr m1"
    and cp: "memcpy (mdata m1) 0 b HeaderInformation_size
               (size_t_of_nat (sizeof uint8_traits * mrows m1 * mcols m1)) = Some (mdata ?M)"
    and r: "mrows ?M = mrows m1" and c: "mcols ?M = mcols m1"
    by blast
  have h: "h = \<lparr>rows = 5, cols = 2, depth = 0, channels = 1\<rparr>"
    using rd unfolding example_read_header_5x2 by simp
  have m1: "m1 = \<lparr>mrows = 5, mcols = 2, mdata = replicate 10 0\<rparr>"
    using rs unfolding h example_resize_5x2 by simp
  have "memcpy (replicate 10 0) 0 ?s HeaderInformation_size (size_t_of_nat (sizeof uint8_traits * 5 * 2)) =
     Some [1, 2, 3, 4, 5, 6, 7, 8, 9, 10]"
    using cp b unfolding m1 by simp
  with example_deSerialize_5x2 example_resize_5x2 show ?thesis
    by (intro conjI)
qed

subsection \<open>Scalar text codec\<close>











subsection \<open>The two decode entry points\<close>

text \<open>
  Claim C9. \<^verbatim>\<open>deSerializeFromString\<close> on a string and a matrix pointer is
  \<^verbatim>\<open>deSerializeFromBuffer\<close> on the string's bytes and length: the same outcome (return
  value and destination, or the same failure), also for a null matrix pointer.
\<close>

theorem deSerializeFromString_is_deSerializeFromBuffer:
  "deSerializeFromString hr st ROWS COLS string matrix =
     deSerializeFromBuffer hr st ROWS COLS (Some string) (length string) matrix"
  by (cases matrix) (simp_all add: deSerializeFromString_def deSerializeFromBuffer_def)

subsection \<open>Failure of the header read\<close>

text \<open>
  Claim C10. If the header reader returns \<^verbatim>\<open>false\<close> on a buffer that is readable for
  \<open>size\<close> bytes (the failure message is built from them), the decode returns \<^verbatim>\<open>false\<close> and
  the destination matrix is what it was: not resized, no byte copied. And whenever the
  decode returns \<^verbatim>\<open>false\<close>, the header read has failed and the destination is what it was.
\<close>

theorem header_failure_leaves_matrix:
  "(HeaderInformation_size \<le> size_in \<and> size_in \<le> length b \<and> hr (Some b) 0 = Inr None \<longrightarrow>
      deSerializeFromBuffer hr st ROWS COLS (Some b) size_in (Some m) = Inr (False, m)) \<and>
   (deSerializeFromBuffer hr st ROWS COLS buffer size_in (Some m) = Inr (False, m') \<longrightarrow>
      m' = m \<and> hr buffer 0 = Inr None)"
  by (auto simp add: deSerializeFromBuffer_def Let_def
      split: if_splits sum.splits option.splits)

text \<open>
  The claim at a buffer of 20 bytes and a reader that fails, with a 1 by 1 destination.
\<close>

theorem header_failure_leaves_matrix_witness:
  "HeaderInformation_size \<le> 20 \<and> 20 \<le> length (fresh_chars 20) \<and>
   failing_reader (Some (fresh_chars 20)) 0 = Inr None \<and>
   deSerializeFromBuffer failing_reader int32_traits Dynamic Dynamic (Some (fresh_chars 20)) 20
     (Some \<lparr>mrows = 1, mcols = 1, mdata = [7, 0, 0, 0]\<rparr>) =
     Inr (False, \<lparr>mrows = 1, mcols = 1, mdata = [7, 0, 0, 0]\<rparr>)"
proof -
  have a: "HeaderInformation_size \<le> 20"
    by (simp add: HeaderInformation_size_def)
  have l: "20 \<le> length (fresh_chars 20)"
    by (simp add: fresh_chars_def)
  have r: "failing_reader (Some (fresh_chars 20)) 0 = Inr None"
    by (simp add: failing_reader_def)
  note t = header_failure_leaves_matrix [where hr = failing_reader and b = "fresh_chars 20"
      and size_in = 20 and st = int32_traits and ROWS = Dynamic and COLS = Dynamic
      and m = "\<lparr>mrows = 1, mcols = 1, mdata = [7, 0, 0, 0]\<rparr>", THEN conjunct1, rule_format]
  from a l r have "deSerializeFromBuffer failing_reader int32_traits Dynamic Dynamic
      (Some (fresh_chars 20)) 20 (Some \<lparr>mrows = 1, mcols = 1, mdata = [7, 0, 0, 0]\<rparr>) =
      Inr (False, \<lparr>mrows = 1, mcols = 1, mdata = [7, 0, 0, 0]\<rparr>)"
    by (intro t conjI)
  with a l r show ?thesis
    by (intro conjI)
qed

end
